theory Spec2Isabelle
  imports Complex_Main
begin

section \<open>Python values and errors\<close>

text \<open>
  The grid of \<^verbatim>\<open>photfdtd/fdtd/grid.py\<close> is modelled function by function.
  Python's unbounded integers are \<^typ>\<open>int\<close>. An exception is a value of the
  type \<open>error\<close>.
\<close>

datatype error =
    ValueError | TypeError | ZeroDivisionError | OverflowError
  | KeyError | AttributeError | IndexError | OSError

text \<open>Sequencing of computations that may raise: the first error ends the computation.\<close>

definition bind_err :: "error + 'a \<Rightarrow> ('a \<Rightarrow> error + 'b) \<Rightarrow> error + 'b" where
  "bind_err m f = (case m of Inl e \<Rightarrow> Inl e | Inr a \<Rightarrow> f a)"

section \<open>Floating-point values\<close>

text \<open>
  A float of Python or numpy is a finite number, an infinity or a NaN. The
  two zeros are not told apart. The arithmetic of arrays follows IEEE 754 on
  the infinities and NaN and is exact on finite numbers: rounding of array
  entries and overflow of finite entries are left out. The conversions of
  distances and times to integers, whose results depend on rounding, round
  every operation to binary64 (see \<open>rnd\<close> below).
\<close>

datatype fl = Fin real | PInf | NInf | NaN

definition fl_inf :: "bool \<Rightarrow> fl" where
  "fl_inf pos = (if pos then PInf else NInf)"

fun fl_neg :: "fl \<Rightarrow> fl" where
  "fl_neg (Fin a) = Fin (- a)"
| "fl_neg PInf = NInf"
| "fl_neg NInf = PInf"
| "fl_neg NaN = NaN"

fun fl_add :: "fl \<Rightarrow> fl \<Rightarrow> fl" where
  "fl_add (Fin a) (Fin b) = Fin (a + b)"
| "fl_add NaN y = NaN"
| "fl_add x NaN = NaN"
| "fl_add PInf NInf = NaN"
| "fl_add NInf PInf = NaN"
| "fl_add PInf y = PInf"
| "fl_add NInf y = NInf"
| "fl_add x PInf = PInf"
| "fl_add x NInf = NInf"

fun fl_mul :: "fl \<Rightarrow> fl \<Rightarrow> fl" where
  "fl_mul (Fin a) (Fin b) = Fin (a * b)"
| "fl_mul NaN y = NaN"
| "fl_mul x NaN = NaN"
| "fl_mul PInf PInf = PInf"
| "fl_mul PInf NInf = NInf"
| "fl_mul NInf PInf = NInf"
| "fl_mul NInf NInf = PInf"
| "fl_mul PInf (Fin b) = (if b = 0 then NaN else fl_inf (0 < b))"
| "fl_mul NInf (Fin b) = (if b = 0 then NaN else fl_inf (b < 0))"
| "fl_mul (Fin a) PInf = (if a = 0 then NaN else fl_inf (0 < a))"
| "fl_mul (Fin a) NInf = (if a = 0 then NaN else fl_inf (a < 0))"

text \<open>
  Division as numpy does it: a division by zero raises nothing and gives an
  infinity, or NaN for \<open>0 / 0\<close>.
\<close>

fun fl_div :: "fl \<Rightarrow> fl \<Rightarrow> fl" where
  "fl_div (Fin a) (Fin b) =
     (if b = 0 then (if a = 0 then NaN else fl_inf (0 < a)) else Fin (a / b))"
| "fl_div NaN y = NaN"
| "fl_div x NaN = NaN"
| "fl_div (Fin a) PInf = Fin 0"
| "fl_div (Fin a) NInf = Fin 0"
| "fl_div PInf (Fin b) = fl_inf (0 \<le> b)"
| "fl_div NInf (Fin b) = fl_inf (b < 0)"
| "fl_div PInf y = NaN"
| "fl_div NInf y = NaN"

instantiation fl :: "{zero, one, plus, minus, uminus, times, inverse}"
begin

definition zero_fl :: fl where
  "zero_fl = Fin 0"

definition one_fl :: fl where
  "one_fl = Fin 1"

definition plus_fl :: "fl \<Rightarrow> fl \<Rightarrow> fl" where
  "plus_fl x y = fl_add x y"

definition uminus_fl :: "fl \<Rightarrow> fl" where
  "uminus_fl x = fl_neg x"

definition minus_fl :: "fl \<Rightarrow> fl \<Rightarrow> fl" where
  "minus_fl x y = fl_add x (fl_neg y)"

definition times_fl :: "fl \<Rightarrow> fl \<Rightarrow> fl" where
  "times_fl x y = fl_mul x y"

definition divide_fl :: "fl \<Rightarrow> fl \<Rightarrow> fl" where
  "divide_fl x y = fl_div x y"

definition inverse_fl :: "fl \<Rightarrow> fl" where
  "inverse_fl x = fl_div (Fin 1) x"

instance ..

end

subsection \<open>Rounding to binary64\<close>

text \<open>
  Rounding of a real to the nearest integer, ties to the even one; the
  exponent of the binade of a number, not below that of the subnormal
  numbers; and the nearest binary64 number, with 53 significant bits.
\<close>

definition rne :: "real \<Rightarrow> int" where
  "rne y = (let f = \<lfloor>y\<rfloor> in
      if y - of_int f < 1 / 2 then f
      else if 1 / 2 < y - of_int f then f + 1
      else if even f then f else f + 1)"

definition expo :: "real \<Rightarrow> int" where
  "expo x = max \<lfloor>log 2 \<bar>x\<bar>\<rfloor> (- 1022)"

definition round64 :: "real \<Rightarrow> real" where
  "round64 x =
     (if x = 0 then 0
      else of_int (rne (x * 2 powi (52 - expo x))) * 2 powi (expo x - 52))"

text \<open>A result beyond the largest binary64 number overflows to an infinity.\<close>

definition to_fl :: "real \<Rightarrow> fl" where
  "to_fl x = (if \<bar>round64 x\<bar> < 2 ^ 1024 then Fin (round64 x) else fl_inf (0 < x))"

fun rnd :: "fl \<Rightarrow> fl" where
  "rnd (Fin a) = to_fl a"
| "rnd x = x"

subsection \<open>Numbers and conversion to integers\<close>

text \<open>A \<^verbatim>\<open>Number\<close> argument is a Python \<^verbatim>\<open>int\<close> or a Python \<^verbatim>\<open>float\<close>.\<close>

datatype number = PInt int | PFloat fl

text \<open>\<^verbatim>\<open>int(r)\<close> of a finite float truncates toward zero.\<close>

definition py_int :: "real \<Rightarrow> int" where
  "py_int r = (if 0 \<le> r then \<lfloor>r\<rfloor> else \<lceil>r\<rceil>)"

text \<open>\<^verbatim>\<open>int(x)\<close> of a float refuses an infinity and a NaN.\<close>

fun int_of_fl :: "fl \<Rightarrow> error + int" where
  "int_of_fl (Fin r) = Inr (py_int r)"
| "int_of_fl PInf = Inl OverflowError"
| "int_of_fl NInf = Inl OverflowError"
| "int_of_fl NaN = Inl ValueError"

text \<open>
  Rounding to the nearest integer with ties toward positive infinity, the
  rounding the specification names round-half-up.
\<close>

definition round_half_up :: "real \<Rightarrow> int" where
  "round_half_up r = \<lfloor>r + 1 / 2\<rfloor>"

section \<open>Field tensors\<close>

text \<open>
  A field is a numpy array of shape \<open>(Nx, Ny, Nz, 3)\<close>: a list over x of lists
  over y of lists over z of the three polarisation components. The last axis
  always has length 3, so a cell is a triple and the component indices
  \<^verbatim>\<open>0\<close>, \<^verbatim>\<open>1\<close>, \<^verbatim>\<open>2\<close> are the constructors of \<open>comp\<close>.
\<close>

type_synonym vec3 = "fl \<times> fl \<times> fl"
type_synonym arr3 = "fl list list list"
type_synonym field = "vec3 list list list"

datatype comp = C0 | C1 | C2

fun cget :: "comp \<Rightarrow> vec3 \<Rightarrow> fl" where
  "cget C0 (a, b, d) = a"
| "cget C1 (a, b, d) = b"
| "cget C2 (a, b, d) = d"

fun cupd :: "comp \<Rightarrow> (fl \<Rightarrow> fl) \<Rightarrow> vec3 \<Rightarrow> vec3" where
  "cupd C0 f (a, b, d) = (f a, b, d)"
| "cupd C1 f (a, b, d) = (a, f b, d)"
| "cupd C2 f (a, b, d) = (a, b, f d)"

fun vmap :: "(fl \<Rightarrow> fl) \<Rightarrow> vec3 \<Rightarrow> vec3" where
  "vmap f (a, b, d) = (f a, f b, f d)"

fun vzip :: "(fl \<Rightarrow> fl \<Rightarrow> fl) \<Rightarrow> vec3 \<Rightarrow> vec3 \<Rightarrow> vec3" where
  "vzip f (a, b, d) (a', b', d') = (f a a', f b b', f d d')"

text \<open>The one-axis subscripts the curls use: \<^verbatim>\<open>:\<close>, \<^verbatim>\<open>:-1\<close> and \<^verbatim>\<open>1:\<close>.\<close>

datatype slice = All | Lo | Hi

fun sl :: "slice \<Rightarrow> 'a list \<Rightarrow> 'a list" where
  "sl All xs = xs"
| "sl Lo xs = butlast xs"
| "sl Hi xs = tl xs"

text \<open>\<^verbatim>\<open>F[sx, sy, sz, c]\<close>: a three-axis array of the component \<open>c\<close>.\<close>

definition rd :: "slice \<Rightarrow> slice \<Rightarrow> slice \<Rightarrow> comp \<Rightarrow> field \<Rightarrow> arr3" where
  "rd sx sy sz c F = map (\<lambda>p. map (\<lambda>r. map (cget c) (sl sz r)) (sl sy p)) (sl sx F)"

text \<open>
  Updating the sliced part of a list in place with the values \<open>ds\<close>, one per
  selected position; the positions outside the slice keep their value.
\<close>

fun upd :: "slice \<Rightarrow> ('a \<Rightarrow> 'b \<Rightarrow> 'a) \<Rightarrow> 'a list \<Rightarrow> 'b list \<Rightarrow> 'a list" where
  "upd All f xs ds = map2 f xs ds"
| "upd Lo f xs ds = map2 f (butlast xs) ds @ drop (length xs - 1) xs"
| "upd Hi f xs ds = take 1 xs @ map2 f (tl xs) ds"

text \<open>
  \<^verbatim>\<open>F[sx, sy, sz, c] += A\<close> is \<open>iop sx sy sz c (+) F A\<close>, and \<^verbatim>\<open>-=\<close> is
  \<open>iop sx sy sz c (-) F A\<close>.
\<close>

definition iop ::
  "slice \<Rightarrow> slice \<Rightarrow> slice \<Rightarrow> comp \<Rightarrow> (fl \<Rightarrow> fl \<Rightarrow> fl) \<Rightarrow> field \<Rightarrow> arr3 \<Rightarrow> field" where
  "iop sx sy sz c f F A =
     upd sx (upd sy (upd sz (\<lambda>v a. cupd c (\<lambda>x. f x a) v))) F A"

text \<open>
  Elementwise difference of two three-axis arrays, and division by a scalar
  that is a finite float.
\<close>

definition sub3 :: "arr3 \<Rightarrow> arr3 \<Rightarrow> arr3" where
  "sub3 A B = map2 (map2 (map2 (-))) A B"

definition div3 :: "arr3 \<Rightarrow> real \<Rightarrow> arr3" where
  "div3 A s = map (map (map (\<lambda>a. a / Fin s))) A"

text \<open>\<^verbatim>\<open>bd.zeros(F.shape)\<close>, and the elementwise operations on fields.\<close>

definition zeros_like :: "field \<Rightarrow> field" where
  "zeros_like F = map (map (map (\<lambda>v. (0, 0, 0)))) F"

definition scale4 :: "real \<Rightarrow> field \<Rightarrow> field" where
  "scale4 s F = map (map (map (vmap (\<lambda>x. Fin s * x)))) F"

definition mul4 :: "field \<Rightarrow> field \<Rightarrow> field" where
  "mul4 F G = map2 (map2 (map2 (vzip (*)))) F G"

definition add4 :: "field \<Rightarrow> field \<Rightarrow> field" where
  "add4 F G = map2 (map2 (map2 (vzip (+)))) F G"

definition sub4 :: "field \<Rightarrow> field \<Rightarrow> field" where
  "sub4 F G = map2 (map2 (map2 (vzip (-)))) F G"

section \<open>The uniform curl operators\<close>

text \<open>\<^verbatim>\<open>Grid.curl_E\<close>: six sliced updates of a zero array, in the source's order.\<close>

definition curl_E :: "field \<Rightarrow> field" where
  "curl_E F =
    (let curl = zeros_like F;
         curl = iop All Lo All C0 (+) curl (sub3 (rd All Hi All C2 F) (rd All Lo All C2 F));
         curl = iop All All Lo C0 (-) curl (sub3 (rd All All Hi C1 F) (rd All All Lo C1 F));
         curl = iop All All Lo C1 (+) curl (sub3 (rd All All Hi C0 F) (rd All All Lo C0 F));
         curl = iop Lo All All C1 (-) curl (sub3 (rd Hi All All C2 F) (rd Lo All All C2 F));
         curl = iop Lo All All C2 (+) curl (sub3 (rd Hi All All C1 F) (rd Lo All All C1 F));
         curl = iop All Lo All C2 (-) curl (sub3 (rd All Hi All C0 F) (rd All Lo All C0 F))
     in curl)"

text \<open>\<^verbatim>\<open>Grid.curl_H\<close>: the same differences written into the \<^verbatim>\<open>1:\<close> slices.\<close>

definition curl_H :: "field \<Rightarrow> field" where
  "curl_H F =
    (let curl = zeros_like F;
         curl = iop All Hi All C0 (+) curl (sub3 (rd All Hi All C2 F) (rd All Lo All C2 F));
         curl = iop All All Hi C0 (-) curl (sub3 (rd All All Hi C1 F) (rd All All Lo C1 F));
         curl = iop All All Hi C1 (+) curl (sub3 (rd All All Hi C0 F) (rd All All Lo C0 F));
         curl = iop Hi All All C1 (-) curl (sub3 (rd Hi All All C2 F) (rd Lo All All C2 F));
         curl = iop Hi All All C2 (+) curl (sub3 (rd Hi All All C1 F) (rd Lo All All C1 F));
         curl = iop All Hi All C2 (-) curl (sub3 (rd All Hi All C0 F) (rd All Lo All C0 F))
     in curl)"

section \<open>Unit conversion\<close>

text \<open>
  \<^verbatim>\<open>Grid._handle_distance\<close> reads only the three spacing attributes of the
  grid, which are passed as the triple \<open>sp\<close>; the constructor calls it before
  the other attributes exist. The spacings are finite floats. An \<^verbatim>\<open>int\<close>
  is returned as it is. For a float, \<^verbatim>\<open>int(float(distance) / spacing + 0.5)\<close>
  divides Python floats, which raises on a zero spacing; the quotient and the
  sum are rounded to binary64, and \<^verbatim>\<open>int\<close> truncates toward zero. An axis
  other than \<^verbatim>\<open>"x"\<close>, \<^verbatim>\<open>"y"\<close>, \<^verbatim>\<open>"z"\<close> falls through the three tests and
  the method returns \<^verbatim>\<open>None\<close>.
\<close>

fun to_index :: "real \<Rightarrow> number \<Rightarrow> error + int option" where
  "to_index spacing (PInt n) = Inr (Some n)"
| "to_index spacing (PFloat x) =
     (if spacing = 0 then Inl ZeroDivisionError
      else bind_err (int_of_fl (rnd (rnd (x / Fin spacing) + Fin 0.5))) (\<lambda>n. Inr (Some n)))"

definition handle_distance :: "real \<times> real \<times> real \<Rightarrow> number \<Rightarrow> string \<Rightarrow> error + int option" where
  "handle_distance sp distance axis =
     (case sp of (sx, sy, sz) \<Rightarrow>
        if axis = ''x'' then to_index sx distance
        else if axis = ''y'' then to_index sy distance
        else if axis = ''z'' then to_index sz distance
        else Inr None)"

text \<open>
  \<^verbatim>\<open>Grid._handle_time\<close>: \<^verbatim>\<open>int(float(time) / self.time_step + 0.5)\<close>. The
  time step the constructor stores is a numpy float, and dividing by a numpy
  zero raises nothing and gives an infinity or a NaN, which \<^verbatim>\<open>int\<close> refuses.
\<close>

fun handle_time :: "real \<Rightarrow> number \<Rightarrow> error + int" where
  "handle_time dt (PInt n) = Inr n"
| "handle_time dt (PFloat t) = int_of_fl (rnd (rnd (t / Fin dt) + Fin 0.5))"

text \<open>\<^verbatim>\<open>Grid._handle_tuple\<close>.\<close>

definition handle_tuple ::
  "real \<times> real \<times> real \<Rightarrow> number list \<Rightarrow> error + (int option \<times> int option \<times> int option)" where
  "handle_tuple sp shape =
     (case shape of
        [x, y, z] \<Rightarrow>
          bind_err (handle_distance sp x ''x'') (\<lambda>x'.
          bind_err (handle_distance sp y ''y'') (\<lambda>y'.
          bind_err (handle_distance sp z ''z'') (\<lambda>z'.
            Inr (x', y', z'))))
      | _ \<Rightarrow> Inl ValueError)"

text \<open>
  Keys of the region operator: a number, a sequence of numbers, or a slice
  whose three parts are numbers or \<^verbatim>\<open>None\<close>. The normalised key is a list of
  indices or a slice of indices.
\<close>

datatype key = KNum number | KSeq "number list" | KSlice "number option" "number option" "number option"

datatype nkey = NList "int option list" | NSlice "int option" "int option" "int option"

text \<open>One part of a slice: only a float is converted (\<^verbatim>\<open>Grid._handle_slice\<close>).\<close>

definition handle_slice_part ::
  "real \<times> real \<times> real \<Rightarrow> number option \<Rightarrow> string \<Rightarrow> error + int option" where
  "handle_slice_part sp v axis =
     (case v of
        None \<Rightarrow> Inr None
      | Some (PInt n) \<Rightarrow> Inr (Some n)
      | Some (PFloat r) \<Rightarrow> handle_distance sp (PFloat r) axis)"

definition handle_slice ::
  "real \<times> real \<times> real \<Rightarrow> number option \<Rightarrow> number option \<Rightarrow> number option \<Rightarrow> string
     \<Rightarrow> error + nkey" where
  "handle_slice sp start stop stp axis =
     bind_err (handle_slice_part sp start axis) (\<lambda>a.
     bind_err (handle_slice_part sp stop axis) (\<lambda>b.
     bind_err (handle_slice_part sp stp axis) (\<lambda>d.
       Inr (NSlice a b d))))"

text \<open>The list comprehension of \<^verbatim>\<open>Grid._handle_single_key\<close>.\<close>

fun handle_each :: "real \<times> real \<times> real \<Rightarrow> number list \<Rightarrow> string \<Rightarrow> error + int option list" where
  "handle_each sp [] axis = Inr []"
| "handle_each sp (k # ks) axis =
     bind_err (handle_distance sp k axis) (\<lambda>i.
     bind_err (handle_each sp ks axis) (\<lambda>is. Inr (i # is)))"

text \<open>
  \<^verbatim>\<open>Grid._handle_single_key\<close>: a key with a length is converted
  elementwise; \<^verbatim>\<open>len\<close> of a slice or of a number raises the TypeError that
  the method catches.
\<close>

fun handle_single_key :: "real \<times> real \<times> real \<Rightarrow> key \<Rightarrow> string \<Rightarrow> error + nkey" where
  "handle_single_key sp (KSeq ks) axis =
     bind_err (handle_each sp ks axis) (\<lambda>is. Inr (NList is))"
| "handle_single_key sp (KSlice a b d) axis = handle_slice sp a b d axis"
| "handle_single_key sp (KNum v) axis =
     bind_err (handle_distance sp v axis) (\<lambda>i. Inr (NList [i]))"

section \<open>The grid\<close>

text \<open>
  The attributes of a \<^verbatim>\<open>Grid\<close> object. The component collections hold
  component handles of type \<open>'c\<close>. The attributes \<^verbatim>\<open>animate\<close>,
  \<^verbatim>\<open>total_time\<close> and \<^verbatim>\<open>folder_frames\<close> are optional: \<open>None\<close> says that
  the object has no such attribute, and reading it raises an AttributeError.
  The spacings, the courant number and the time step are finite floats, kept
  as their numeric value. Permittivity and permeability are taken as scalars. The attribute
  \<^verbatim>\<open>background_index\<close>, which no method of the grid reads, is left out.
\<close>

record 'c grid =
  grid_spacing :: real
  grid_spacing_x :: real
  grid_spacing_y :: real
  grid_spacing_z :: real
  Nx :: int
  Ny :: int
  Nz :: int
  D :: int
  courant_number :: real
  time_step :: real
  E :: field
  H :: field
  inverse_permittivity :: field
  inverse_permeability :: field
  priority :: arr3
  time_steps_passed :: int
  sources :: "'c list"
  boundaries :: "'c list"
  detectors :: "'c list"
  objects :: "'c list"
  folder :: "string option"
  animate :: "bool option"
  total_time :: "int option"
  folder_frames :: "string option"

definition spacings :: "'c grid \<Rightarrow> real \<times> real \<times> real" where
  "spacings g = (grid_spacing_x g, grid_spacing_y g, grid_spacing_z g)"

text \<open>
  Modelled from the spec: \<^verbatim>\<open>const.c\<close>, the vacuum propagation speed constant
  of the module \<^verbatim>\<open>constants\<close>, in metres per second.
\<close>

definition const_c :: real where
  "const_c = 299792458"

subsection \<open>Construction\<close>

text \<open>
  The numeric parameters of the constructor (the spacings, the material
  constants and the courant number) are Python ints or finite floats, taken
  as their numeric value; an optional one is \<^verbatim>\<open>None\<close> or a value.

  A per-axis spacing attribute is the uniform spacing when the override is
  \<^verbatim>\<open>None\<close>, the override otherwise.
\<close>

definition spacing_attr :: "real \<Rightarrow> real option \<Rightarrow> real" where
  "spacing_attr s ov = (case ov of None \<Rightarrow> s | Some v \<Rightarrow> v)"

text \<open>\<^verbatim>\<open>int(N > 1)\<close>.\<close>

definition active :: "int \<Rightarrow> int" where
  "active n = (if n > 1 then 1 else 0)"

text \<open>
  One summand \<^verbatim>\<open>int(N > 1) / grid_spacing_a ** 2\<close> of the time step. It
  reads the constructor's parameter, not the attribute: the power of
  \<^verbatim>\<open>None\<close> raises a TypeError and the division by zero a ZeroDivisionError.
\<close>

definition spacing_term :: "int \<Rightarrow> real option \<Rightarrow> error + real" where
  "spacing_term n s =
     (case s of
        None \<Rightarrow> Inl TypeError
      | Some v \<Rightarrow>
          if v ^ 2 = 0 then Inl ZeroDivisionError
          else Inr (of_int (active n) / v ^ 2))"

text \<open>\<^verbatim>\<open>float(D) ** (-0.5)\<close>, which raises for \<open>D = 0\<close>.\<close>

definition max_courant :: "int \<Rightarrow> error + real" where
  "max_courant d = (if d = 0 then Inl ZeroDivisionError else Inr (of_int d powr (- 0.5)))"

text \<open>
  The courant number: the default, or the given one unless it exceeds the
  maximum.
\<close>

definition choose_courant :: "real \<Rightarrow> real option \<Rightarrow> error + real" where
  "choose_courant mx cn =
     (case cn of
        None \<Rightarrow> Inr (0.99 * mx)
      | Some v \<Rightarrow> if v > mx then Inl ValueError else Inr v)"

text \<open>\<^verbatim>\<open>bd.zeros((Nx, Ny, Nz, 3))\<close> refuses a negative dimension.\<close>

definition valid_dims :: "int \<Rightarrow> int \<Rightarrow> int \<Rightarrow> bool" where
  "valid_dims nx ny nz = (0 \<le> nx \<and> 0 \<le> ny \<and> 0 \<le> nz)"

definition full4 :: "int \<Rightarrow> int \<Rightarrow> int \<Rightarrow> fl \<Rightarrow> field" where
  "full4 nx ny nz v = replicate (nat nx) (replicate (nat ny) (replicate (nat nz) (v, v, v)))"

definition full3 :: "int \<Rightarrow> int \<Rightarrow> int \<Rightarrow> fl \<Rightarrow> arr3" where
  "full3 nx ny nz v = replicate (nat nx) (replicate (nat ny) (replicate (nat nz) v))"

text \<open>
  A shape entry that is \<^verbatim>\<open>None\<close> fails the comparison
  \<^verbatim>\<open>self.Nx > 1\<close> with a TypeError.
\<close>

definition known_dims :: "int option \<times> int option \<times> int option \<Rightarrow> error + (int \<times> int \<times> int)" where
  "known_dims dims =
     (case dims of
        (Some nx, Some ny, Some nz) \<Rightarrow> Inr (nx, ny, nz)
      | _ \<Rightarrow> Inl TypeError)"

text \<open>
  \<^verbatim>\<open>Grid.__init__\<close>, in the order of the source: the spacing attributes,
  the shape, the dimension \<open>D\<close>, the courant number, the time step, the
  tensors and the collections. The material tensors are arrays of ones
  divided by the material constant.
\<close>

definition Grid_init ::
  "number list \<Rightarrow> real \<Rightarrow> real option \<Rightarrow> real option \<Rightarrow> real option
     \<Rightarrow> real \<Rightarrow> real \<Rightarrow> real option \<Rightarrow> string option \<Rightarrow> error + 'c grid" where
  "Grid_init shape gs gsx gsy gsz permittivity permeability cn fld =
    (let sx = spacing_attr gs gsx;
         sy = spacing_attr gs gsy;
         sz = spacing_attr gs gsz
     in
     bind_err (handle_tuple (sx, sy, sz) shape) (\<lambda>dims.
     bind_err (known_dims dims) (\<lambda>(nx, ny, nz).
     let d = active nx + active ny + active nz in
     bind_err (max_courant d) (\<lambda>mx.
     bind_err (choose_courant mx cn) (\<lambda>courant.
     bind_err (spacing_term nx gsx) (\<lambda>tx.
     bind_err (spacing_term ny gsy) (\<lambda>ty.
     bind_err (spacing_term nz gsz) (\<lambda>tz.
       if \<not> valid_dims nx ny nz then Inl ValueError
       else Inr \<lparr>
         grid_spacing = gs,
         grid_spacing_x = sx, grid_spacing_y = sy, grid_spacing_z = sz,
         Nx = nx, Ny = ny, Nz = nz,
         D = d,
         courant_number = courant,
         time_step = 0.99 / (const_c * sqrt (tx + ty + tz)),
         E = full4 nx ny nz 0,
         H = full4 nx ny nz 0,
         inverse_permittivity = full4 nx ny nz (1 / Fin permittivity),
         inverse_permeability = full4 nx ny nz (1 / Fin permeability),
         priority = full3 nx ny nz 0,
         time_steps_passed = 0,
         sources = [], boundaries = [], detectors = [], objects = [],
         folder = fld,
         animate = None, total_time = None, folder_frames = None \<rparr>))))))))"

section \<open>The non-uniform curl operators\<close>

text \<open>
  \<^verbatim>\<open>Grid.curl_E_with_nonuniform_grid\<close> and
  \<^verbatim>\<open>Grid.curl_H_with_nonuniform_grid\<close>: every difference is divided by the
  spacing of its axis.
\<close>

definition curl_E_with_nonuniform_grid :: "'c grid \<Rightarrow> field \<Rightarrow> field" where
  "curl_E_with_nonuniform_grid g F =
    (let curl = zeros_like F;
         curl = iop All Lo All C0 (+) curl
                  (div3 (sub3 (rd All Hi All C2 F) (rd All Lo All C2 F)) (grid_spacing_y g));
         curl = iop All All Lo C0 (-) curl
                  (div3 (sub3 (rd All All Hi C1 F) (rd All All Lo C1 F)) (grid_spacing_z g));
         curl = iop All All Lo C1 (+) curl
                  (div3 (sub3 (rd All All Hi C0 F) (rd All All Lo C0 F)) (grid_spacing_z g));
         curl = iop Lo All All C1 (-) curl
                  (div3 (sub3 (rd Hi All All C2 F) (rd Lo All All C2 F)) (grid_spacing_x g));
         curl = iop Lo All All C2 (+) curl
                  (div3 (sub3 (rd Hi All All C1 F) (rd Lo All All C1 F)) (grid_spacing_x g));
         curl = iop All Lo All C2 (-) curl
                  (div3 (sub3 (rd All Hi All C0 F) (rd All Lo All C0 F)) (grid_spacing_y g))
     in curl)"

definition curl_H_with_nonuniform_grid :: "'c grid \<Rightarrow> field \<Rightarrow> field" where
  "curl_H_with_nonuniform_grid g F =
    (let curl = zeros_like F;
         curl = iop All Hi All C0 (+) curl
                  (div3 (sub3 (rd All Hi All C2 F) (rd All Lo All C2 F)) (grid_spacing_y g));
         curl = iop All All Hi C0 (-) curl
                  (div3 (sub3 (rd All All Hi C1 F) (rd All All Lo C1 F)) (grid_spacing_z g));
         curl = iop All All Hi C1 (+) curl
                  (div3 (sub3 (rd All All Hi C0 F) (rd All All Lo C0 F)) (grid_spacing_z g));
         curl = iop Hi All All C1 (-) curl
                  (div3 (sub3 (rd Hi All All C2 F) (rd Lo All All C2 F)) (grid_spacing_x g));
         curl = iop Hi All All C2 (+) curl
                  (div3 (sub3 (rd Hi All All C1 F) (rd Lo All All C1 F)) (grid_spacing_x g));
         curl = iop All Hi All C2 (-) curl
                  (div3 (sub3 (rd All Hi All C0 F) (rd All Lo All C0 F)) (grid_spacing_y g))
     in curl)"

section \<open>Components and their hooks\<close>

text \<open>
  The components (boundaries, sources, detectors) and the collaborators that
  render frames and prepare folders are not part of the grid; the grid only
  calls them. Modelled from the spec: a call is answered by the parameter
  \<open>hook\<close>, which reads the grid and the state \<open>'x\<close> of all components, may
  raise, and may write the two field tensors and the component state, and
  nothing else of the grid.
\<close>

datatype 'c call =
    Update_phi_E 'c real real real
  | Boundary_update_E 'c
  | Source_update_E 'c
  | Detect_E 'c
  | Update_phi_H 'c real real real
  | Boundary_update_H 'c
  | Source_update_H 'c
  | Detect_H 'c
  | Init_h5file 'c
  | Save_frame
  | Prepare_frames string

type_synonym ('c, 'x) hooks = "'c call \<Rightarrow> 'c grid \<Rightarrow> 'x \<Rightarrow> error option \<times> field \<times> field \<times> 'x"

text \<open>
  A method of the grid is a command on the pair of the grid and the component
  state. It returns the exception it raised, if any, and the state it left
  behind: an exception does not undo the mutations made before it.
\<close>

type_synonym ('c, 'x) world = "'c grid \<times> 'x"
type_synonym ('c, 'x) cmd = "('c, 'x) world \<Rightarrow> error option \<times> ('c, 'x) world"

definition ok :: "('c, 'x) cmd" where
  "ok w = (None, w)"

definition raise :: "error \<Rightarrow> ('c, 'x) cmd" where
  "raise e w = (Some e, w)"

definition seq :: "('c, 'x) cmd \<Rightarrow> ('c, 'x) cmd \<Rightarrow> ('c, 'x) cmd" where
  "seq m n w = (case m w of (None, w') \<Rightarrow> n w' | (Some e, w') \<Rightarrow> (Some e, w'))"

fun seqs :: "('c, 'x) cmd list \<Rightarrow> ('c, 'x) cmd" where
  "seqs [] = ok"
| "seqs (m # ms) = seq m (seqs ms)"

definition modify :: "('c grid \<Rightarrow> 'c grid) \<Rightarrow> ('c, 'x) cmd" where
  "modify f w = (None, (f (fst w), snd w))"

definition call :: "('c, 'x) hooks \<Rightarrow> 'c call \<Rightarrow> ('c, 'x) cmd" where
  "call hook cl w =
     (case hook cl (fst w) (snd w) of
        (r, e, h, x) \<Rightarrow> (r, ((fst w)\<lparr>E := e, H := h\<rparr>, x)))"

text \<open>\<^verbatim>\<open>for comp in self.collection: body(comp)\<close>.\<close>

fun foreach :: "('c \<Rightarrow> ('c, 'x) cmd) \<Rightarrow> 'c list \<Rightarrow> ('c, 'x) cmd" where
  "foreach f [] = ok"
| "foreach f (x # xs) = seq (f x) (foreach f xs)"

definition for_in :: "('c grid \<Rightarrow> 'c list) \<Rightarrow> ('c \<Rightarrow> ('c, 'x) cmd) \<Rightarrow> ('c, 'x) cmd" where
  "for_in coll f w = foreach f (coll (fst w)) w"

text \<open>\<^verbatim>\<open>for _ in range(0, n, 1): body\<close>.\<close>

fun repeat :: "nat \<Rightarrow> ('c, 'x) cmd \<Rightarrow> ('c, 'x) cmd" where
  "repeat 0 m = ok"
| "repeat (Suc n) m = seq m (repeat n m)"

section \<open>Time stepping\<close>

text \<open>The phases of \<^verbatim>\<open>Grid.update_E\<close> and \<^verbatim>\<open>Grid.update_H\<close>.\<close>

definition pre_E :: "('c, 'x) hooks \<Rightarrow> ('c, 'x) cmd" where
  "pre_E hook = for_in boundaries (\<lambda>b w.
     call hook (Update_phi_E b (grid_spacing_x (fst w)) (grid_spacing_y (fst w))
                                (grid_spacing_z (fst w))) w)"

definition field_E :: "('c, 'x) cmd" where
  "field_E = modify (\<lambda>g.
     let curl = curl_H_with_nonuniform_grid g (H g)
     in g\<lparr>E := add4 (E g) (mul4 (scale4 (const_c * time_step g) (inverse_permittivity g)) curl)\<rparr>)"

definition pre_H :: "('c, 'x) hooks \<Rightarrow> ('c, 'x) cmd" where
  "pre_H hook = for_in boundaries (\<lambda>b w.
     call hook (Update_phi_H b (grid_spacing_x (fst w)) (grid_spacing_y (fst w))
                                (grid_spacing_z (fst w))) w)"

definition field_H :: "('c, 'x) cmd" where
  "field_H = modify (\<lambda>g.
     let curl = curl_E_with_nonuniform_grid g (E g)
     in g\<lparr>H := sub4 (H g) (mul4 (scale4 (const_c * time_step g) (inverse_permeability g)) curl)\<rparr>)"

definition update_E :: "('c, 'x) hooks \<Rightarrow> ('c, 'x) cmd" where
  "update_E hook = seqs
     [pre_E hook,
      field_E,
      for_in boundaries (\<lambda>b. call hook (Boundary_update_E b)),
      for_in sources (\<lambda>s. call hook (Source_update_E s)),
      for_in detectors (\<lambda>d. call hook (Detect_E d))]"

definition update_H :: "('c, 'x) hooks \<Rightarrow> ('c, 'x) cmd" where
  "update_H hook = seqs
     [pre_H hook,
      field_H,
      for_in boundaries (\<lambda>b. call hook (Boundary_update_H b)),
      for_in sources (\<lambda>s. call hook (Source_update_H s)),
      for_in detectors (\<lambda>d. call hook (Detect_H d))]"

text \<open>
  The frame capture of \<^verbatim>\<open>Grid.step\<close>:
  \<^verbatim>\<open>if self.animate and self.time_steps_passed % interval == 0: self.save_frame()\<close>.
  Reading \<^verbatim>\<open>self.animate\<close> raises when the attribute is missing; the
  modulus is evaluated only when the flag is true. \<^verbatim>\<open>save_frame\<close> renders
  with the plotting library and is a call to the outside.
\<close>

definition capture :: "('c, 'x) hooks \<Rightarrow> int \<Rightarrow> ('c, 'x) cmd" where
  "capture hook interval w =
     (case animate (fst w) of
        None \<Rightarrow> raise AttributeError w
      | Some a \<Rightarrow>
          if a then
            (if interval = 0 then raise ZeroDivisionError w
             else if time_steps_passed (fst w) mod interval = 0 then call hook Save_frame w
             else ok w)
          else ok w)"

definition count_step :: "('c, 'x) cmd" where
  "count_step = modify (\<lambda>g. g\<lparr>time_steps_passed := time_steps_passed g + 1\<rparr>)"

text \<open>\<^verbatim>\<open>Grid.step\<close>.\<close>

definition step :: "('c, 'x) hooks \<Rightarrow> int \<Rightarrow> ('c, 'x) cmd" where
  "step hook interval = seqs [update_E hook, update_H hook, capture hook interval, count_step]"


section \<open>Running\<close>

text \<open>
  The folder preparation of \<^verbatim>\<open>Grid.run\<close>, done when \<^verbatim>\<open>self.animate\<close>
  is true: the frames folder is emptied or created by calls to the operating
  system, and its path is stored. Concatenating a missing folder
  (\<^verbatim>\<open>None\<close>) with a string raises a TypeError.
\<close>

definition prepare :: "('c, 'x) hooks \<Rightarrow> ('c, 'x) cmd" where
  "prepare hook w =
     (case animate (fst w) of
        None \<Rightarrow> raise AttributeError w
      | Some a \<Rightarrow>
          if a then
            (case folder (fst w) of
               None \<Rightarrow> raise TypeError w
             | Some f \<Rightarrow>
                 seq (call hook (Prepare_frames (f @ ''/frames'')))
                     (modify (\<lambda>g. g\<lparr>folder_frames := Some (f @ ''/frames'')\<rparr>)) w)
          else ok w)"

text \<open>
  The number of steps of \<^verbatim>\<open>Grid.run\<close>: a float is divided by the time
  step, a numpy float, the quotient is rounded to binary64, and \<^verbatim>\<open>int\<close>
  truncates it; \<^verbatim>\<open>int(None)\<close> raises a TypeError.
\<close>

fun run_steps :: "real \<Rightarrow> number option \<Rightarrow> error + int" where
  "run_steps dt None = Inl TypeError"
| "run_steps dt (Some (PInt n)) = Inr n"
| "run_steps dt (Some (PFloat t)) = int_of_fl (rnd (t / Fin dt))"

text \<open>
  \<^verbatim>\<open>Grid.run\<close>. The progress bar wraps the range and does not change the
  iteration.
\<close>

definition run :: "('c, 'x) hooks \<Rightarrow> number option \<Rightarrow> bool \<Rightarrow> int \<Rightarrow> ('c, 'x) cmd" where
  "run hook duration progress_bar interval w =
     (case run_steps (time_step (fst w)) duration of
        Inl e \<Rightarrow> raise e w
      | Inr n \<Rightarrow>
          seqs [modify (\<lambda>g. g\<lparr>total_time := Some n\<rparr>),
                prepare hook,
                for_in detectors (\<lambda>d. call hook (Init_h5file d)),
                repeat (nat n) (step hook interval)] w)"

section \<open>Reset and region assignment\<close>

text \<open>
  \<^verbatim>\<open>Grid.reset\<close> multiplies every entry of both fields by \<^verbatim>\<open>0.0\<close> and the
  counter by 0.
\<close>

definition reset :: "'c grid \<Rightarrow> 'c grid" where
  "reset g =
     (let g = g\<lparr>H := scale4 0 (H g)\<rparr>;
          g = g\<lparr>E := scale4 0 (E g)\<rparr>
      in g\<lparr>time_steps_passed := time_steps_passed g * 0\<rparr>)"

text \<open>
  \<^verbatim>\<open>Grid.__setitem__\<close>. The key is one axis key or a tuple of axis keys.
  The component's \<^verbatim>\<open>_register_grid\<close> is the parameter \<open>register\<close>; it may
  change anything.
\<close>

datatype index = Single key | Tuple "key list"

definition unpack :: "index \<Rightarrow> error + (key \<times> key \<times> key)" where
  "unpack k =
     (case k of
        Single x \<Rightarrow> Inr (x, KSlice None None None, KSlice None None None)
      | Tuple [x] \<Rightarrow> Inr (x, KSlice None None None, KSlice None None None)
      | Tuple [x, y] \<Rightarrow> Inr (x, y, KSlice None None None)
      | Tuple [x, y, z] \<Rightarrow> Inr (x, y, z)
      | Tuple _ \<Rightarrow> Inl KeyError)"

definition setitem ::
  "('a \<Rightarrow> nkey \<Rightarrow> nkey \<Rightarrow> nkey \<Rightarrow> ('c, 'x) cmd) \<Rightarrow> index \<Rightarrow> 'a \<Rightarrow> ('c, 'x) cmd" where
  "setitem register k attr w =
     (case bind_err (unpack k) (\<lambda>(x, y, z).
           bind_err (handle_single_key (spacings (fst w)) x ''x'') (\<lambda>x'.
           bind_err (handle_single_key (spacings (fst w)) y ''y'') (\<lambda>y'.
           bind_err (handle_single_key (spacings (fst w)) z ''z'') (\<lambda>z'.
             Inr (x', y', z'))))) of
        Inl e \<Rightarrow> raise e w
      | Inr (x', y', z') \<Rightarrow> register attr x' y' z' w)"

section \<open>Notions used to state the properties\<close>

text \<open>A rectangular array of shape \<open>(nx, ny, nz)\<close>, as every numpy array is.\<close>

definition shaped :: "nat \<Rightarrow> nat \<Rightarrow> nat \<Rightarrow> 'a list list list \<Rightarrow> bool" where
  "shaped nx ny nz F =
     (length F = nx \<and> list_all (\<lambda>p. length p = ny \<and> list_all (\<lambda>r. length r = nz) p) F)"

text \<open>The component \<open>c\<close> of the cell \<open>(i, j, k)\<close>: \<^verbatim>\<open>F[i, j, k, c]\<close>.\<close>

definition entry :: "field \<Rightarrow> comp \<Rightarrow> nat \<Rightarrow> nat \<Rightarrow> nat \<Rightarrow> fl" where
  "entry F c i j k = cget c (F ! i ! j ! k)"

text \<open>
  The forward difference along an axis of length \<open>n\<close>, absent at the last
  index, and the backward difference, absent at index 0.
\<close>

definition fwd :: "nat \<Rightarrow> nat \<Rightarrow> fl \<Rightarrow> fl \<Rightarrow> fl" where
  "fwd n i next here = (if i + 1 < n then next - here else 0)"

definition bwd :: "nat \<Rightarrow> fl \<Rightarrow> fl \<Rightarrow> fl" where
  "bwd i here prev = (if 0 < i then here - prev else 0)"

text \<open>
  What a slice does to an axis of length \<open>n\<close>: the offset of its first
  index, the number of indices it leaves out, and the indices it covers.
\<close>

fun off :: "slice \<Rightarrow> nat" where
  "off All = 0"
| "off Lo = 0"
| "off Hi = 1"

fun cut :: "slice \<Rightarrow> nat" where
  "cut All = 0"
| "cut Lo = 1"
| "cut Hi = 1"

fun cov :: "slice \<Rightarrow> nat \<Rightarrow> nat \<Rightarrow> bool" where
  "cov All n i = True"
| "cov Lo n i = (i + 1 < n)"
| "cov Hi n i = (0 < i)"

text \<open>A three-axis array multiplied by a scalar, and a field of shape \<open>(1, 2, 2, 3)\<close>.\<close>

definition scale3 :: "real \<Rightarrow> arr3 \<Rightarrow> arr3" where
  "scale3 s A = map (map (map (\<lambda>a. Fin s * a))) A"

definition sample_field :: field where
  "sample_field =
     [[[(Fin 1, Fin 2, Fin 3), (Fin 4, Fin 5, Fin 6)],
       [(Fin 7, Fin 8, Fin 9), (Fin 10, Fin 11, Fin 12)]]]"

text \<open>
  The grid \<^verbatim>\<open>Grid((1, 1, 2), grid_spacing=1, grid_spacing_x=1, grid_spacing_y=1, grid_spacing_z=1)\<close>,
  as the constructor returns it.
\<close>

definition unit_line :: "'c grid" where
  "unit_line = \<lparr>
     grid_spacing = 1,
     grid_spacing_x = 1, grid_spacing_y = 1, grid_spacing_z = 1,
     Nx = 1, Ny = 1, Nz = 2,
     D = 1,
     courant_number = 0.99,
     time_step = 0.99 / const_c,
     E = [[[(0, 0, 0), (0, 0, 0)]]],
     H = [[[(0, 0, 0), (0, 0, 0)]]],
     inverse_permittivity = [[[(1, 1, 1), (1, 1, 1)]]],
     inverse_permeability = [[[(1, 1, 1), (1, 1, 1)]]],
     priority = [[[0, 0]]],
     time_steps_passed = 0,
     sources = [], boundaries = [], detectors = [], objects = [],
     folder = None,
     animate = None, total_time = None, folder_frames = None \<rparr>"

text \<open>
  That grid after the caller has set its \<^verbatim>\<open>animate\<close> attribute to false, or
  to true; and that grid with an electric field that has overflowed in one
  entry, as a diverged run leaves it.
\<close>

definition still_line :: "'c grid" where
  "still_line = unit_line\<lparr>animate := Some False\<rparr>"


definition blown_line :: "'c grid" where
  "blown_line = unit_line\<lparr>E := [[[(PInf, 0, 0), (0, 0, 0)]]]\<rparr>"

text \<open>
  Hooks that do nothing, and a registration that does nothing. With no
  source registered, \<^verbatim>\<open>save_frame\<close> fails at \<^verbatim>\<open>self.sources[0]\<close> with an
  IndexError: \<open>frameless\<close> are the quiet hooks of a grid without sources.
\<close>

definition quiet :: "('c, 'x) hooks" where
  "quiet cl g x = (None, E g, H g, x)"


definition no_register :: "'a \<Rightarrow> nkey \<Rightarrow> nkey \<Rightarrow> nkey \<Rightarrow> ('c, 'x) cmd" where
  "no_register attr x y z = ok"


text \<open>
  Two grids that differ at most in the two fields, and at most in the two
  fields and by \<open>n\<close> in the step counter; a command that changes at most the
  two fields; a command that never raises; hooks that never raise.
\<close>

definition frame :: "'c grid \<Rightarrow> 'c grid \<Rightarrow> bool" where
  "frame g g' = (g' = g\<lparr>E := E g', H := H g'\<rparr>)"

definition advance :: "int \<Rightarrow> 'c grid \<Rightarrow> 'c grid \<Rightarrow> bool" where
  "advance n g g' =
     (g' = g\<lparr>E := E g', H := H g', time_steps_passed := time_steps_passed g + n\<rparr>)"

definition keeps :: "('c, 'x) cmd \<Rightarrow> bool" where
  "keeps m = (\<forall>w. frame (fst w) (fst (snd (m w))))"

definition succeeds :: "('c, 'x) cmd \<Rightarrow> bool" where
  "succeeds m = (\<forall>w. fst (m w) = None)"

definition calm :: "('c, 'x) hooks \<Rightarrow> bool" where
  "calm hook = (\<forall>cl g x. fst (hook cl g x) = None)"

section \<open>Floating-point values: properties\<close>

lemma fl_zero_add: "0 + (x :: fl) = x"
  by (cases x) (simp_all add: zero_fl_def plus_fl_def)

lemma fl_sub_zero: "(x :: fl) - 0 = x"
  by (cases x) (simp_all add: zero_fl_def minus_fl_def)

lemma fl_scale_zero: "Fin s * (0 :: fl) = 0"
  by (simp add: zero_fl_def times_fl_def)

lemma fl_scale_add: "s \<noteq> 0 \<Longrightarrow> Fin s * (x + a) = Fin s * x + Fin s * a"
  by (cases "0 < s"; cases x; cases a)
     (auto simp: plus_fl_def times_fl_def fl_inf_def algebra_simps)

lemma fl_scale_sub: "s \<noteq> 0 \<Longrightarrow> Fin s * (x - a) = Fin s * x - Fin s * a"
  by (cases "0 < s"; cases x; cases a)
     (auto simp: minus_fl_def plus_fl_def times_fl_def fl_inf_def algebra_simps)

lemma fl_div_scale: "s \<noteq> 0 \<Longrightarrow> (x :: fl) / Fin s = Fin (1 / s) * x"
  by (cases "0 < s"; cases x) (auto simp: divide_fl_def times_fl_def fl_inf_def)

lemma rne_of_int: "rne (of_int m) = m"
  by (simp add: rne_def)

lemma floor_minus_one: "\<lfloor>- 1 :: real\<rfloor> = - 1"
  using floor_of_int [of "- 1", where ?'a = real] by simp

lemma log_half: "log 2 (1 / 2) = - 1"
  by (simp add: log_divide)

lemma expo_one: "expo 1 = 0" "expo (- 1) = 0"
  by (simp_all add: expo_def)

lemma expo_half: "expo (1 / 2) = - 1" "expo (- (1 / 2)) = - 1"
  by (simp_all add: expo_def log_half floor_minus_one)

lemma round64_one: "round64 1 = 1"
proof -
  have "(1::real) * 2 powi 52 = of_int (2 ^ 52)" by simp
  then have "rne (1 * 2 powi 52) = 2 ^ 52" by (simp only: rne_of_int)
  then show ?thesis by (simp add: round64_def expo_one power_int_minus)
qed

lemma round64_minus_one: "round64 (- 1) = - 1"
proof -
  have "(- 1::real) * 2 powi 52 = of_int (- (2 ^ 52))" by simp
  then have "rne (- 1 * 2 powi 52) = - (2 ^ 52)" by (simp only: rne_of_int)
  then show ?thesis by (simp add: round64_def expo_one power_int_minus)
qed

lemma round64_half: "round64 (1 / 2) = 1 / 2"
proof -
  have "(1 / 2::real) * 2 powi 53 = of_int (2 ^ 52)" by simp
  then have "rne (1 / 2 * 2 powi 53) = 2 ^ 52" by (simp only: rne_of_int)
  then show ?thesis by (simp add: round64_def expo_half power_int_minus)
qed

lemma round64_minus_half: "round64 (- (1 / 2)) = - (1 / 2)"
proof -
  have "(- (1 / 2)::real) * 2 powi 53 = of_int (- (2 ^ 52))" by simp
  then have "rne (- (1 / 2) * 2 powi 53) = - (2 ^ 52)" by (simp only: rne_of_int)
  then show ?thesis by (simp add: round64_def expo_half power_int_minus)
qed

lemma to_fl_values:
  "to_fl 1 = Fin 1" "to_fl (- 1) = Fin (- 1)" "to_fl (1 / 2) = Fin (1 / 2)"
  "to_fl (- (1 / 2)) = Fin (- (1 / 2))"
  by (simp_all add: to_fl_def round64_one round64_minus_one round64_half round64_minus_half)

lemma py_int_values: "py_int (- (1 / 2)) = 0" "py_int (1 / 2) = 0" "py_int 1 = 1"
proof -
  have "\<lceil>- (1 / 2) :: real\<rceil> = 0" by (rule ceiling_unique) simp_all
  then show "py_int (- (1 / 2)) = 0" by (simp add: py_int_def)
  have "\<lfloor>1 / 2 :: real\<rfloor> = 0" by (rule floor_unique) simp_all
  then show "py_int (1 / 2) = 0" by (simp add: py_int_def)
  show "py_int 1 = 1" by (simp add: py_int_def)
qed

section \<open>Unit conversion: properties\<close>

text \<open>
  C9. The conversion does not round half up for a negative distance. At the
  distance \<open>-1.0\<close> on an axis of spacing \<open>1.0\<close> the quotient \<open>-1.0\<close> and the
  sum \<open>-0.5\<close> are exact in binary64, \<^verbatim>\<open>int\<close> truncates \<open>-0.5\<close> to 0, and the
  method returns the index 0; \<open>-1\<close> rounded half up is \<open>-1\<close>.
\<close>

theorem handle_distance_minus_one_cell:
  "handle_distance (1, 1, 1) (PFloat (Fin (- 1))) ''x'' = Inr (Some 0) \<and>
   round_half_up (- 1 / 1) = - 1"
  by (simp add: handle_distance_def bind_err_def divide_fl_def plus_fl_def to_fl_values
      py_int_values round_half_up_def)

section \<open>Reset and region assignment: properties\<close>

lemma reset_frame:
  "reset g = g\<lparr>H := scale4 0 (H g), E := scale4 0 (E g), time_steps_passed := 0\<rparr>"
  by (simp add: reset_def Let_def)

text \<open>
  C4. \<^verbatim>\<open>reset()\<close> does not zero an entry that is infinite: on the grid whose
  electric field has overflowed in one entry, that entry is NaN after the
  reset.
\<close>

theorem reset_leaves_nan:
  "E (reset (blown_line :: unit grid)) = [[[(NaN, 0, 0), (0, 0, 0)]]]"
  by (simp add: reset_frame blown_line_def unit_line_def scale4_def times_fl_def zero_fl_def)

lemma unpack_long: "3 < length ks \<Longrightarrow> unpack (Tuple ks) = Inl KeyError"
  by (auto simp: unpack_def split: list.splits)

text \<open>
  C7. A tuple key of more than three axis keys raises the KeyError and leaves
  the grid and the components as they were, whatever the registration
  callback would do: the callback is not called.
\<close>

theorem setitem_too_many_keys:
  "3 < length ks \<Longrightarrow> setitem register (Tuple ks) attr w = (Some KeyError, w)"
  by (simp add: setitem_def unpack_long bind_err_def raise_def)

theorem setitem_too_many_keys_witness:
  "3 < length [KNum (PInt 0), KNum (PInt 0), KNum (PInt 0), KNum (PInt 0)] \<and>
   setitem (no_register :: unit \<Rightarrow> nkey \<Rightarrow> nkey \<Rightarrow> nkey \<Rightarrow> (unit, unit) cmd)
     (Tuple [KNum (PInt 0), KNum (PInt 0), KNum (PInt 0), KNum (PInt 0)]) ()
     (unit_line, ()) = (Some KeyError, (unit_line, ()))"
  using setitem_too_many_keys
    [of "[KNum (PInt 0), KNum (PInt 0), KNum (PInt 0), KNum (PInt 0)]"
        "no_register :: unit \<Rightarrow> nkey \<Rightarrow> nkey \<Rightarrow> nkey \<Rightarrow> (unit, unit) cmd" "()" "(unit_line, ())"]
  by simp

section \<open>Curl operators: properties\<close>

subsection \<open>Slices and shapes\<close>

lemma length_sl: "length (sl s xs) = length xs - cut s"
  by (cases s) simp_all

lemma nth_sl: "i < length xs - cut s \<Longrightarrow> sl s xs ! i = xs ! (i + off s)"
  by (cases s) (simp_all add: nth_butlast nth_tl)

lemma length_upd: "length ds = length xs - cut s \<Longrightarrow> length (upd s f xs ds) = length xs"
  by (cases s) (auto simp: min_def)

lemma nth_upd:
  assumes "length ds = length xs - cut s" "i < length xs"
  shows "upd s f xs ds ! i = (if cov s (length xs) i then f (xs ! i) (ds ! (i - off s)) else xs ! i)"
proof (cases s)
  case All with assms show ?thesis by simp
next
  case Lo
  show ?thesis
  proof (cases "i + 1 < length xs")
    case True
    then have "i < length xs - 1" by simp
    with assms Lo True show ?thesis by (simp add: nth_append nth_butlast)
  next
    case False
    with assms have "i = length xs - 1" by simp
    with assms Lo False show ?thesis by (simp add: nth_append)
  qed
next
  case Hi
  with assms show ?thesis
    by (cases i) (auto simp: nth_append nth_tl min_def)
qed

lemma in_slice: "i < n - cut s \<Longrightarrow> i + off s < n"
  by (cases s) simp_all

lemma shapedD:
  assumes "shaped nx ny nz F"
  shows "length F = nx"
    and "i < nx \<Longrightarrow> length (F ! i) = ny"
    and "i < nx \<Longrightarrow> j < ny \<Longrightarrow> length (F ! i ! j) = nz"
  using assms by (auto simp: shaped_def list_all_length)

lemma shapedI:
  assumes "length F = nx"
    and "\<And>i. i < nx \<Longrightarrow> length (F ! i) = ny"
    and "\<And>i j. i < nx \<Longrightarrow> j < ny \<Longrightarrow> length (F ! i ! j) = nz"
  shows "shaped nx ny nz F"
  using assms by (auto simp: shaped_def list_all_length)

lemma rd_row:
  assumes "shaped nx ny nz F" "i < nx - cut sx"
  shows "rd sx sy sz c F ! i = map (\<lambda>r. map (cget c) (sl sz r)) (sl sy (F ! (i + off sx)))"
  using assms(2) shapedD(1)[OF assms(1)] by (simp add: rd_def length_sl nth_sl)

lemma rd_row2:
  assumes "shaped nx ny nz F" "i < nx - cut sx" "j < ny - cut sy"
  shows "rd sx sy sz c F ! i ! j = map (cget c) (sl sz (F ! (i + off sx) ! (j + off sy)))"
proof -
  have "length (F ! (i + off sx)) = ny"
    using shapedD(2)[OF assms(1)] in_slice[OF assms(2)] by simp
  then show ?thesis
    using assms(3) by (simp add: rd_row[OF assms(1,2)] length_sl nth_sl)
qed

lemma rd_shaped:
  assumes "shaped nx ny nz F"
  shows "shaped (nx - cut sx) (ny - cut sy) (nz - cut sz) (rd sx sy sz c F)"
proof (rule shapedI)
  show "length (rd sx sy sz c F) = nx - cut sx"
    using shapedD(1)[OF assms] by (simp add: rd_def length_sl)
next
  fix i assume i: "i < nx - cut sx"
  have "length (F ! (i + off sx)) = ny"
    using shapedD(2)[OF assms] in_slice[OF i] by simp
  then show "length (rd sx sy sz c F ! i) = ny - cut sy"
    by (simp add: rd_row[OF assms i] length_sl)
next
  fix i j assume i: "i < nx - cut sx" and j: "j < ny - cut sy"
  have "length (F ! (i + off sx) ! (j + off sy)) = nz"
    using shapedD(3)[OF assms] in_slice[OF i] in_slice[OF j] by simp
  then show "length (rd sx sy sz c F ! i ! j) = nz - cut sz"
    by (simp add: rd_row2[OF assms i j] length_sl)
qed

lemma rd_nth:
  assumes "shaped nx ny nz F" "i < nx - cut sx" "j < ny - cut sy" "k < nz - cut sz"
  shows "rd sx sy sz c F ! i ! j ! k = cget c (F ! (i + off sx) ! (j + off sy) ! (k + off sz))"
proof -
  have "length (F ! (i + off sx) ! (j + off sy)) = nz"
    using shapedD(3)[OF assms(1)] in_slice[OF assms(2)] in_slice[OF assms(3)] by simp
  then show ?thesis
    using assms(4) by (simp add: rd_row2[OF assms(1-3)] length_sl nth_sl)
qed

lemma sub3_shaped:
  assumes "shaped nx ny nz A" "shaped nx ny nz B"
  shows "shaped nx ny nz (sub3 A B)"
  using shapedD[OF assms(1)] shapedD[OF assms(2)]
  by (intro shapedI) (simp_all add: sub3_def)

lemma sub3_nth:
  assumes "shaped nx ny nz A" "shaped nx ny nz B" "i < nx" "j < ny" "k < nz"
  shows "sub3 A B ! i ! j ! k = A ! i ! j ! k - B ! i ! j ! k"
  using shapedD[OF assms(1)] shapedD[OF assms(2)] assms(3-)
  by (simp add: sub3_def)

lemma zeros_like_shaped: "shaped nx ny nz F \<Longrightarrow> shaped nx ny nz (zeros_like F)"
  by (auto simp: shaped_def zeros_like_def list_all_length)

lemma zeros_like_nth:
  assumes "shaped nx ny nz F" "i < nx" "j < ny" "k < nz"
  shows "zeros_like F ! i ! j ! k = (0, 0, 0)"
  using shapedD[OF assms(1)] assms(2-) by (simp add: zeros_like_def)

lemma iop_shaped:
  assumes "shaped nx ny nz F" "shaped (nx - cut sx) (ny - cut sy) (nz - cut sz) A"
  shows "shaped nx ny nz (iop sx sy sz c f F A)"
proof (rule shapedI)
  note F = shapedD[OF assms(1)] and A = shapedD[OF assms(2)]
  show len: "length (iop sx sy sz c f F A) = nx"
    using F(1) A(1) by (simp add: iop_def length_upd)
  fix i assume i: "i < nx"
  show "length (iop sx sy sz c f F A ! i) = ny"
  proof (cases "cov sx nx i")
    case True
    then have "i - off sx < nx - cut sx" using i by (cases sx) auto
    then show ?thesis using F A i True by (simp add: iop_def nth_upd length_upd)
  next
    case False
    then show ?thesis using F A i by (simp add: iop_def nth_upd)
  qed
  fix j assume j: "j < ny"
  show "length (iop sx sy sz c f F A ! i ! j) = nz"
  proof (cases "cov sx nx i")
    case True
    then have i': "i - off sx < nx - cut sx" using i by (cases sx) auto
    show ?thesis
    proof (cases "cov sy ny j")
      case True
      then have "j - off sy < ny - cut sy" using j by (cases sy) auto
      then show ?thesis using F A i j i' True \<open>cov sx nx i\<close>
        by (simp add: iop_def nth_upd length_upd)
    next
      case False
      then show ?thesis using F A i j i' \<open>cov sx nx i\<close>
        by (simp add: iop_def nth_upd length_upd)
    qed
  next
    case False
    then show ?thesis using F A i j by (simp add: iop_def nth_upd)
  qed
qed

lemma cov_in: "cov s n i \<Longrightarrow> i < n \<Longrightarrow> i - off s < n - cut s"
  by (cases s) auto

lemma iop_nth:
  assumes "shaped nx ny nz F" "shaped (nx - cut sx) (ny - cut sy) (nz - cut sz) A"
    and "i < nx" "j < ny" "k < nz"
  shows "iop sx sy sz c f F A ! i ! j ! k =
         (if cov sx nx i \<and> cov sy ny j \<and> cov sz nz k
          then cupd c (\<lambda>x. f x (A ! (i - off sx) ! (j - off sy) ! (k - off sz))) (F ! i ! j ! k)
          else F ! i ! j ! k)"
proof -
  note F = shapedD[OF assms(1)] and A = shapedD[OF assms(2)]
  show ?thesis
  proof (cases "cov sx nx i")
    case cx: True
    note i' = cov_in[OF cx assms(3)]
    show ?thesis
    proof (cases "cov sy ny j")
      case cy: True
      note j' = cov_in[OF cy assms(4)]
      show ?thesis
        using F A assms(3-) i' j' cx cy by (simp add: iop_def nth_upd length_upd)
    next
      case False
      then show ?thesis
        using F A assms(3-) i' cx by (simp add: iop_def nth_upd length_upd)
    qed
  next
    case False
    then show ?thesis using F A assms(3-) by (simp add: iop_def nth_upd)
  qed
qed

subsection \<open>The entries of the uniform curls\<close>

lemma cget_cupd: "cget c' (cupd c f v) = (if c' = c then f (cget c' v) else cget c' v)"
  by (cases v; cases c; cases c') simp_all

lemma iop_cget:
  assumes "shaped nx ny nz F" "shaped (nx - cut sx) (ny - cut sy) (nz - cut sz) A"
    and "i < nx" "j < ny" "k < nz"
  shows "cget c' (iop sx sy sz c f F A ! i ! j ! k) =
         (if c' = c \<and> cov sx nx i \<and> cov sy ny j \<and> cov sz nz k
          then f (cget c' (F ! i ! j ! k)) (A ! (i - off sx) ! (j - off sy) ! (k - off sz))
          else cget c' (F ! i ! j ! k))"
  by (simp add: iop_nth[OF assms] cget_cupd)

lemma diff_shaped:
  assumes "shaped nx ny nz F" "cut hx = cut lx" "cut hy = cut ly" "cut hz = cut lz"
  shows "shaped (nx - cut lx) (ny - cut ly) (nz - cut lz)
           (sub3 (rd hx hy hz c F) (rd lx ly lz c F))"
  using rd_shaped[OF assms(1), of hx hy hz c] rd_shaped[OF assms(1), of lx ly lz c] assms(2-)
  by (simp add: sub3_shaped)

lemma diff_nth:
  assumes "shaped nx ny nz F" "cut hx = cut lx" "cut hy = cut ly" "cut hz = cut lz"
    and "i < nx - cut lx" "j < ny - cut ly" "k < nz - cut lz"
  shows "sub3 (rd hx hy hz c F) (rd lx ly lz c F) ! i ! j ! k =
         cget c (F ! (i + off hx) ! (j + off hy) ! (k + off hz)) -
         cget c (F ! (i + off lx) ! (j + off ly) ! (k + off lz))"
proof -
  have h: "shaped (nx - cut lx) (ny - cut ly) (nz - cut lz) (rd hx hy hz c F)"
    using rd_shaped[OF assms(1), of hx hy hz c] assms(2-4) by simp
  have l: "shaped (nx - cut lx) (ny - cut ly) (nz - cut lz) (rd lx ly lz c F)"
    by (rule rd_shaped[OF assms(1)])
  show ?thesis
    using assms(2-) by (simp add: sub3_nth[OF h l] rd_nth[OF assms(1)])
qed

lemma dy_nth:
  assumes "shaped nx ny nz F" "i < nx" "j + 1 < ny" "k < nz"
  shows "sub3 (rd All Hi All c F) (rd All Lo All c F) ! i ! j ! k =
         entry F c i (j + 1) k - entry F c i j k"
  using assms(2-) by (simp add: diff_nth[OF assms(1)] entry_def)

lemma dz_nth:
  assumes "shaped nx ny nz F" "i < nx" "j < ny" "k + 1 < nz"
  shows "sub3 (rd All All Hi c F) (rd All All Lo c F) ! i ! j ! k =
         entry F c i j (k + 1) - entry F c i j k"
  using assms(2-) by (simp add: diff_nth[OF assms(1)] entry_def)

lemma dx_nth:
  assumes "shaped nx ny nz F" "i + 1 < nx" "j < ny" "k < nz"
  shows "sub3 (rd Hi All All c F) (rd Lo All All c F) ! i ! j ! k =
         entry F c (i + 1) j k - entry F c i j k"
  using assms(2-) by (simp add: diff_nth[OF assms(1)] entry_def)

lemma dy_shaped:
  "shaped nx ny nz F \<Longrightarrow>
   shaped (nx - cut All) (ny - cut Lo) (nz - cut All) (sub3 (rd All Hi All c F) (rd All Lo All c F))"
  by (rule diff_shaped) simp_all

lemma dz_shaped:
  "shaped nx ny nz F \<Longrightarrow>
   shaped (nx - cut All) (ny - cut All) (nz - cut Lo) (sub3 (rd All All Hi c F) (rd All All Lo c F))"
  by (rule diff_shaped) simp_all

lemma dx_shaped:
  "shaped nx ny nz F \<Longrightarrow>
   shaped (nx - cut Lo) (ny - cut All) (nz - cut All) (sub3 (rd Hi All All c F) (rd Lo All All c F))"
  by (rule diff_shaped) simp_all

lemma curl_E_entry:
  assumes F: "shaped nx ny nz F" and ijk: "i < nx" "j < ny" "k < nz"
  shows "entry (curl_E F) C0 i j k =
           fwd ny j (entry F C2 i (j + 1) k) (entry F C2 i j k)
         - fwd nz k (entry F C1 i j (k + 1)) (entry F C1 i j k)"
    and "entry (curl_E F) C1 i j k =
           fwd nz k (entry F C0 i j (k + 1)) (entry F C0 i j k)
         - fwd nx i (entry F C2 (i + 1) j k) (entry F C2 i j k)"
    and "entry (curl_E F) C2 i j k =
           fwd nx i (entry F C1 (i + 1) j k) (entry F C1 i j k)
         - fwd ny j (entry F C0 i (j + 1) k) (entry F C0 i j k)"
proof -
  define d1 where "d1 = sub3 (rd All Hi All C2 F) (rd All Lo All C2 F)"
  define d2 where "d2 = sub3 (rd All All Hi C1 F) (rd All All Lo C1 F)"
  define d3 where "d3 = sub3 (rd All All Hi C0 F) (rd All All Lo C0 F)"
  define d4 where "d4 = sub3 (rd Hi All All C2 F) (rd Lo All All C2 F)"
  define d5 where "d5 = sub3 (rd Hi All All C1 F) (rd Lo All All C1 F)"
  define d6 where "d6 = sub3 (rd All Hi All C0 F) (rd All Lo All C0 F)"
  define c0 where "c0 = zeros_like F"
  define c1 where "c1 = iop All Lo All C0 (+) c0 d1"
  define c2 where "c2 = iop All All Lo C0 (-) c1 d2"
  define c3 where "c3 = iop All All Lo C1 (+) c2 d3"
  define c4 where "c4 = iop Lo All All C1 (-) c3 d4"
  define c5 where "c5 = iop Lo All All C2 (+) c4 d5"
  define c6 where "c6 = iop All Lo All C2 (-) c5 d6"
  have curl: "curl_E F = c6"
    by (simp add: curl_E_def Let_def c6_def c5_def c4_def c3_def c2_def c1_def c0_def
        d1_def d2_def d3_def d4_def d5_def d6_def)
  have s1: "shaped (nx - cut All) (ny - cut Lo) (nz - cut All) d1"
    unfolding d1_def by (rule dy_shaped[OF F])
  have s2: "shaped (nx - cut All) (ny - cut All) (nz - cut Lo) d2"
    unfolding d2_def by (rule dz_shaped[OF F])
  have s3: "shaped (nx - cut All) (ny - cut All) (nz - cut Lo) d3"
    unfolding d3_def by (rule dz_shaped[OF F])
  have s4: "shaped (nx - cut Lo) (ny - cut All) (nz - cut All) d4"
    unfolding d4_def by (rule dx_shaped[OF F])
  have s5: "shaped (nx - cut Lo) (ny - cut All) (nz - cut All) d5"
    unfolding d5_def by (rule dx_shaped[OF F])
  have s6: "shaped (nx - cut All) (ny - cut Lo) (nz - cut All) d6"
    unfolding d6_def by (rule dy_shaped[OF F])
  have n1: "j + 1 < ny \<Longrightarrow> d1 ! i ! j ! k = entry F C2 i (j + 1) k - entry F C2 i j k"
    unfolding d1_def using ijk by (simp add: dy_nth[OF F])
  have n2: "k + 1 < nz \<Longrightarrow> d2 ! i ! j ! k = entry F C1 i j (k + 1) - entry F C1 i j k"
    unfolding d2_def using ijk by (simp add: dz_nth[OF F])
  have n3: "k + 1 < nz \<Longrightarrow> d3 ! i ! j ! k = entry F C0 i j (k + 1) - entry F C0 i j k"
    unfolding d3_def using ijk by (simp add: dz_nth[OF F])
  have n4: "i + 1 < nx \<Longrightarrow> d4 ! i ! j ! k = entry F C2 (i + 1) j k - entry F C2 i j k"
    unfolding d4_def using ijk by (simp add: dx_nth[OF F])
  have n5: "i + 1 < nx \<Longrightarrow> d5 ! i ! j ! k = entry F C1 (i + 1) j k - entry F C1 i j k"
    unfolding d5_def using ijk by (simp add: dx_nth[OF F])
  have n6: "j + 1 < ny \<Longrightarrow> d6 ! i ! j ! k = entry F C0 i (j + 1) k - entry F C0 i j k"
    unfolding d6_def using ijk by (simp add: dy_nth[OF F])
  have z0: "shaped nx ny nz c0" unfolding c0_def by (rule zeros_like_shaped[OF F])
  have z1: "shaped nx ny nz c1" unfolding c1_def by (rule iop_shaped[OF z0 s1])
  have z2: "shaped nx ny nz c2" unfolding c2_def by (rule iop_shaped[OF z1 s2])
  have z3: "shaped nx ny nz c3" unfolding c3_def by (rule iop_shaped[OF z2 s3])
  have z4: "shaped nx ny nz c4" unfolding c4_def by (rule iop_shaped[OF z3 s4])
  have z5: "shaped nx ny nz c5" unfolding c5_def by (rule iop_shaped[OF z4 s5])
  have v0: "cget c' (c0 ! i ! j ! k) = 0" for c'
    unfolding c0_def by (cases c') (simp_all add: zeros_like_nth[OF F ijk])
  note v1 = iop_cget[OF z0 s1 ijk, of _ C0 "(+)", folded c1_def]
  note v2 = iop_cget[OF z1 s2 ijk, of _ C0 "(-)", folded c2_def]
  note v3 = iop_cget[OF z2 s3 ijk, of _ C1 "(+)", folded c3_def]
  note v4 = iop_cget[OF z3 s4 ijk, of _ C1 "(-)", folded c4_def]
  note v5 = iop_cget[OF z4 s5 ijk, of _ C2 "(+)", folded c5_def]
  note v6 = iop_cget[OF z5 s6 ijk, of _ C2 "(-)", folded c6_def]
  show "entry (curl_E F) C0 i j k =
           fwd ny j (entry F C2 i (j + 1) k) (entry F C2 i j k)
         - fwd nz k (entry F C1 i j (k + 1)) (entry F C1 i j k)"
    by (simp add: curl entry_def[of c6] v6 v5 v4 v3 v2 v1 v0 n1 n2 fwd_def fl_zero_add fl_sub_zero)
  show "entry (curl_E F) C1 i j k =
           fwd nz k (entry F C0 i j (k + 1)) (entry F C0 i j k)
         - fwd nx i (entry F C2 (i + 1) j k) (entry F C2 i j k)"
    by (simp add: curl entry_def[of c6] v6 v5 v4 v3 v2 v1 v0 n3 n4 fwd_def fl_zero_add fl_sub_zero)
  show "entry (curl_E F) C2 i j k =
           fwd nx i (entry F C1 (i + 1) j k) (entry F C1 i j k)
         - fwd ny j (entry F C0 i (j + 1) k) (entry F C0 i j k)"
    by (simp add: curl entry_def[of c6] v6 v5 v4 v3 v2 v1 v0 n5 n6 fwd_def fl_zero_add fl_sub_zero)
qed


lemma curl_H_entry:
  assumes F: "shaped nx ny nz F" and ijk: "i < nx" "j < ny" "k < nz"
  shows "entry (curl_H F) C0 i j k =
           bwd j (entry F C2 i j k) (entry F C2 i (j - 1) k)
         - bwd k (entry F C1 i j k) (entry F C1 i j (k - 1))"
    and "entry (curl_H F) C1 i j k =
           bwd k (entry F C0 i j k) (entry F C0 i j (k - 1))
         - bwd i (entry F C2 i j k) (entry F C2 (i - 1) j k)"
    and "entry (curl_H F) C2 i j k =
           bwd i (entry F C1 i j k) (entry F C1 (i - 1) j k)
         - bwd j (entry F C0 i j k) (entry F C0 i (j - 1) k)"
proof -
  define d1 where "d1 = sub3 (rd All Hi All C2 F) (rd All Lo All C2 F)"
  define d2 where "d2 = sub3 (rd All All Hi C1 F) (rd All All Lo C1 F)"
  define d3 where "d3 = sub3 (rd All All Hi C0 F) (rd All All Lo C0 F)"
  define d4 where "d4 = sub3 (rd Hi All All C2 F) (rd Lo All All C2 F)"
  define d5 where "d5 = sub3 (rd Hi All All C1 F) (rd Lo All All C1 F)"
  define d6 where "d6 = sub3 (rd All Hi All C0 F) (rd All Lo All C0 F)"
  define c0 where "c0 = zeros_like F"
  define c1 where "c1 = iop All Hi All C0 (+) c0 d1"
  define c2 where "c2 = iop All All Hi C0 (-) c1 d2"
  define c3 where "c3 = iop All All Hi C1 (+) c2 d3"
  define c4 where "c4 = iop Hi All All C1 (-) c3 d4"
  define c5 where "c5 = iop Hi All All C2 (+) c4 d5"
  define c6 where "c6 = iop All Hi All C2 (-) c5 d6"
  have curl: "curl_H F = c6"
    by (simp add: curl_H_def Let_def c6_def c5_def c4_def c3_def c2_def c1_def c0_def
        d1_def d2_def d3_def d4_def d5_def d6_def)
  have s1: "shaped (nx - cut All) (ny - cut Hi) (nz - cut All) d1"
    unfolding d1_def using dy_shaped[OF F] by simp
  have s2: "shaped (nx - cut All) (ny - cut All) (nz - cut Hi) d2"
    unfolding d2_def using dz_shaped[OF F] by simp
  have s3: "shaped (nx - cut All) (ny - cut All) (nz - cut Hi) d3"
    unfolding d3_def using dz_shaped[OF F] by simp
  have s4: "shaped (nx - cut Hi) (ny - cut All) (nz - cut All) d4"
    unfolding d4_def using dx_shaped[OF F] by simp
  have s5: "shaped (nx - cut Hi) (ny - cut All) (nz - cut All) d5"
    unfolding d5_def using dx_shaped[OF F] by simp
  have s6: "shaped (nx - cut All) (ny - cut Hi) (nz - cut All) d6"
    unfolding d6_def using dy_shaped[OF F] by simp
  have n1: "0 < j \<Longrightarrow> d1 ! i ! (j - 1) ! k = entry F C2 i j k - entry F C2 i (j - 1) k"
    unfolding d1_def using ijk dy_nth[OF F, of i "j - 1" k C2] by simp
  have n2: "0 < k \<Longrightarrow> d2 ! i ! j ! (k - 1) = entry F C1 i j k - entry F C1 i j (k - 1)"
    unfolding d2_def using ijk dz_nth[OF F, of i j "k - 1" C1] by simp
  have n3: "0 < k \<Longrightarrow> d3 ! i ! j ! (k - 1) = entry F C0 i j k - entry F C0 i j (k - 1)"
    unfolding d3_def using ijk dz_nth[OF F, of i j "k - 1" C0] by simp
  have n4: "0 < i \<Longrightarrow> d4 ! (i - 1) ! j ! k = entry F C2 i j k - entry F C2 (i - 1) j k"
    unfolding d4_def using ijk dx_nth[OF F, of "i - 1" j k C2] by simp
  have n5: "0 < i \<Longrightarrow> d5 ! (i - 1) ! j ! k = entry F C1 i j k - entry F C1 (i - 1) j k"
    unfolding d5_def using ijk dx_nth[OF F, of "i - 1" j k C1] by simp
  have n6: "0 < j \<Longrightarrow> d6 ! i ! (j - 1) ! k = entry F C0 i j k - entry F C0 i (j - 1) k"
    unfolding d6_def using ijk dy_nth[OF F, of i "j - 1" k C0] by simp
  have z0: "shaped nx ny nz c0" unfolding c0_def by (rule zeros_like_shaped[OF F])
  have z1: "shaped nx ny nz c1" unfolding c1_def by (rule iop_shaped[OF z0 s1])
  have z2: "shaped nx ny nz c2" unfolding c2_def by (rule iop_shaped[OF z1 s2])
  have z3: "shaped nx ny nz c3" unfolding c3_def by (rule iop_shaped[OF z2 s3])
  have z4: "shaped nx ny nz c4" unfolding c4_def by (rule iop_shaped[OF z3 s4])
  have z5: "shaped nx ny nz c5" unfolding c5_def by (rule iop_shaped[OF z4 s5])
  have v0: "cget c' (c0 ! i ! j ! k) = 0" for c'
    unfolding c0_def by (cases c') (simp_all add: zeros_like_nth[OF F ijk])
  note v1 = iop_cget[OF z0 s1 ijk, of _ C0 "(+)", folded c1_def]
  note v2 = iop_cget[OF z1 s2 ijk, of _ C0 "(-)", folded c2_def]
  note v3 = iop_cget[OF z2 s3 ijk, of _ C1 "(+)", folded c3_def]
  note v4 = iop_cget[OF z3 s4 ijk, of _ C1 "(-)", folded c4_def]
  note v5 = iop_cget[OF z4 s5 ijk, of _ C2 "(+)", folded c5_def]
  note v6 = iop_cget[OF z5 s6 ijk, of _ C2 "(-)", folded c6_def]
  show "entry (curl_H F) C0 i j k =
           bwd j (entry F C2 i j k) (entry F C2 i (j - 1) k)
         - bwd k (entry F C1 i j k) (entry F C1 i j (k - 1))"
    unfolding curl entry_def[of c6] v6 v5 v4 v3 v2 v1 v0 bwd_def using n1 n2 by (auto simp: fl_zero_add fl_sub_zero)
  show "entry (curl_H F) C1 i j k =
           bwd k (entry F C0 i j k) (entry F C0 i j (k - 1))
         - bwd i (entry F C2 i j k) (entry F C2 (i - 1) j k)"
    unfolding curl entry_def[of c6] v6 v5 v4 v3 v2 v1 v0 bwd_def using n3 n4 by (auto simp: fl_zero_add fl_sub_zero)
  show "entry (curl_H F) C2 i j k =
           bwd i (entry F C1 i j k) (entry F C1 (i - 1) j k)
         - bwd j (entry F C0 i j k) (entry F C0 i (j - 1) k)"
    unfolding curl entry_def[of c6] v6 v5 v4 v3 v2 v1 v0 bwd_def using n5 n6 by (auto simp: fl_zero_add fl_sub_zero)
qed

text \<open>
  C5. For a field of shape \<open>(nx, ny, nz, 3)\<close>, every entry of \<^verbatim>\<open>curl_E\<close> is
  the difference of two forward differences, and a forward difference along
  an axis contributes nothing in the last layer of that axis; every entry of
  \<^verbatim>\<open>curl_H\<close> is the difference of two backward differences, and a backward
  difference contributes nothing in the layer of index 0. No entry reads a
  neighbour from the other end of an axis.
\<close>

theorem curl_edge_layers:
  assumes "shaped nx ny nz F" and "i < nx" and "j < ny" and "k < nz"
  shows "entry (curl_E F) C0 i j k =
           fwd ny j (entry F C2 i (j + 1) k) (entry F C2 i j k)
         - fwd nz k (entry F C1 i j (k + 1)) (entry F C1 i j k) \<and>
         entry (curl_E F) C1 i j k =
           fwd nz k (entry F C0 i j (k + 1)) (entry F C0 i j k)
         - fwd nx i (entry F C2 (i + 1) j k) (entry F C2 i j k) \<and>
         entry (curl_E F) C2 i j k =
           fwd nx i (entry F C1 (i + 1) j k) (entry F C1 i j k)
         - fwd ny j (entry F C0 i (j + 1) k) (entry F C0 i j k) \<and>
         entry (curl_H F) C0 i j k =
           bwd j (entry F C2 i j k) (entry F C2 i (j - 1) k)
         - bwd k (entry F C1 i j k) (entry F C1 i j (k - 1)) \<and>
         entry (curl_H F) C1 i j k =
           bwd k (entry F C0 i j k) (entry F C0 i j (k - 1))
         - bwd i (entry F C2 i j k) (entry F C2 (i - 1) j k) \<and>
         entry (curl_H F) C2 i j k =
           bwd i (entry F C1 i j k) (entry F C1 (i - 1) j k)
         - bwd j (entry F C0 i j k) (entry F C0 i (j - 1) k)"
  using curl_E_entry [OF assms] curl_H_entry [OF assms] by simp

theorem curl_edge_layers_witness:
  "shaped 1 2 2 sample_field \<and>
   entry (curl_E sample_field) C0 0 0 1 = Fin 6 \<and>
   entry (curl_E sample_field) C1 0 0 1 = Fin 0 \<and>
   entry (curl_E sample_field) C2 0 0 1 = Fin (- 6) \<and>
   entry (curl_H sample_field) C0 0 0 1 = Fin (- 3) \<and>
   entry (curl_H sample_field) C1 0 0 1 = Fin 3 \<and>
   entry (curl_H sample_field) C2 0 0 1 = Fin 0"
proof -
  have sh: "shaped 1 2 2 sample_field"
    by (simp add: shaped_def sample_field_def)
  have e: "entry sample_field c 0 0 0 = cget c (Fin 1, Fin 2, Fin 3)"
          "entry sample_field c 0 0 (Suc 0) = cget c (Fin 4, Fin 5, Fin 6)"
          "entry sample_field c 0 (Suc 0) 0 = cget c (Fin 7, Fin 8, Fin 9)"
          "entry sample_field c 0 (Suc 0) (Suc 0) = cget c (Fin 10, Fin 11, Fin 12)" for c
    by (simp_all add: entry_def sample_field_def)
  show ?thesis
    using curl_edge_layers [OF sh, of 0 0 1] sh
    by (simp add: fwd_def bwd_def e minus_fl_def zero_fl_def)
qed

subsection \<open>Equal spacings\<close>

lemma map_map2:
  assumes "\<And>x d. g (f x d) = f' (g x) (h d)"
  shows "map g (map2 f xs ds) = map2 f' (map g xs) (map h ds)"
proof (induction xs arbitrary: ds)
  case Nil then show ?case by simp
next
  case (Cons x xs) then show ?case by (cases ds) (simp_all add: assms)
qed

lemma map_upd:
  assumes "\<And>x d. g (f x d) = f' (g x) (h d)"
  shows "map g (upd s f xs ds) = upd s f' (map g xs) (map h ds)"
  by (cases s) (simp_all del: map_map add: map_map2[of g f f' h, OF assms] map_butlast drop_map take_map map_tl)

lemma vmap_cupd_add:
  "s \<noteq> 0 \<Longrightarrow>
   vmap (\<lambda>x. Fin s * x) (cupd c (\<lambda>x. x + a) v) = cupd c (\<lambda>x. x + Fin s * a) (vmap (\<lambda>x. Fin s * x) v)"
  by (cases v; cases c) (simp_all add: fl_scale_add)

lemma vmap_cupd_sub:
  "s \<noteq> 0 \<Longrightarrow>
   vmap (\<lambda>x. Fin s * x) (cupd c (\<lambda>x. x - a) v) = cupd c (\<lambda>x. x - Fin s * a) (vmap (\<lambda>x. Fin s * x) v)"
  by (cases v; cases c) (simp_all add: fl_scale_sub)

lemma scale4_iop_add:
  assumes "s \<noteq> 0"
  shows "scale4 s (iop sx sy sz c (+) F A) = iop sx sy sz c (+) (scale4 s F) (scale3 s A)"
  unfolding scale4_def scale3_def iop_def
  by (rule map_upd, rule map_upd, rule map_upd, rule vmap_cupd_add[OF assms])

lemma scale4_iop_sub:
  assumes "s \<noteq> 0"
  shows "scale4 s (iop sx sy sz c (-) F A) = iop sx sy sz c (-) (scale4 s F) (scale3 s A)"
  unfolding scale4_def scale3_def iop_def
  by (rule map_upd, rule map_upd, rule map_upd, rule vmap_cupd_sub[OF assms])

lemma div3_scale3: "s \<noteq> 0 \<Longrightarrow> div3 A s = scale3 (1 / s) A"
  by (simp add: div3_def scale3_def fl_div_scale)

lemma scale4_zeros_like: "scale4 s (zeros_like F) = zeros_like F"
  by (simp add: scale4_def zeros_like_def fl_scale_zero)

lemma curl_E_equal_spacing:
  assumes "grid_spacing_x g = \<Delta>" "grid_spacing_y g = \<Delta>" "grid_spacing_z g = \<Delta>" "\<Delta> \<noteq> 0"
  shows "curl_E_with_nonuniform_grid g F = scale4 (1 / \<Delta>) (curl_E F)"
proof -
  have s: "1 / \<Delta> \<noteq> 0" using assms(4) by simp
  show ?thesis
    by (simp add: curl_E_with_nonuniform_grid_def curl_E_def Let_def assms(1-3)
        scale4_iop_add[OF s] scale4_iop_sub[OF s] scale4_zeros_like div3_scale3[OF assms(4)])
qed

lemma curl_H_equal_spacing:
  assumes "grid_spacing_x g = \<Delta>" "grid_spacing_y g = \<Delta>" "grid_spacing_z g = \<Delta>" "\<Delta> \<noteq> 0"
  shows "curl_H_with_nonuniform_grid g F = scale4 (1 / \<Delta>) (curl_H F)"
proof -
  have s: "1 / \<Delta> \<noteq> 0" using assms(4) by simp
  show ?thesis
    by (simp add: curl_H_with_nonuniform_grid_def curl_H_def Let_def assms(1-3)
        scale4_iop_add[OF s] scale4_iop_sub[OF s] scale4_zeros_like div3_scale3[OF assms(4)])
qed

text \<open>
  C6. On a grid whose three spacings are the same nonzero \<open>\<Delta>\<close>, each
  non-uniform curl is the uniform curl multiplied elementwise by \<open>1 / \<Delta>\<close>.
  The arithmetic of finite entries is exact, for which dividing by \<open>\<Delta>\<close> and
  multiplying by \<open>1 / \<Delta>\<close> agree; on infinities and NaN both sides agree as
  well.
\<close>

theorem nonuniform_curl_equal_spacing:
  assumes "grid_spacing_x g = \<Delta>" and "grid_spacing_y g = \<Delta>" and "grid_spacing_z g = \<Delta>"
    and "\<Delta> \<noteq> 0"
  shows "curl_E_with_nonuniform_grid g F = scale4 (1 / \<Delta>) (curl_E F) \<and>
         curl_H_with_nonuniform_grid g F = scale4 (1 / \<Delta>) (curl_H F)"
  using curl_E_equal_spacing [OF assms] curl_H_equal_spacing [OF assms] by simp

theorem nonuniform_curl_equal_spacing_witness:
  "curl_E_with_nonuniform_grid
     ((unit_line :: unit grid)\<lparr>grid_spacing_x := 2, grid_spacing_y := 2, grid_spacing_z := 2\<rparr>)
     sample_field = scale4 (1 / 2) (curl_E sample_field) \<and>
   curl_H_with_nonuniform_grid
     ((unit_line :: unit grid)\<lparr>grid_spacing_x := 2, grid_spacing_y := 2, grid_spacing_z := 2\<rparr>)
     sample_field = scale4 (1 / 2) (curl_H sample_field)"
  using nonuniform_curl_equal_spacing
    [of "(unit_line :: unit grid)\<lparr>grid_spacing_x := 2, grid_spacing_y := 2, grid_spacing_z := 2\<rparr>"
        2 sample_field]
  by simp

section \<open>Construction: properties\<close>


text \<open>
  C2. Constructing the grid of shape \<open>(1, 60, 60)\<close> with the default spacing
  \<open>155e-9\<close> and no per-axis spacing does not succeed: the time step reads
  the per-axis parameters, which are \<^verbatim>\<open>None\<close>, and raises a TypeError.
\<close>

theorem default_spacing_construction_fails:
  "Grid_init [PInt 1, PInt 60, PInt 60] (155 / 10 ^ 9) None None None 1 1 None None
     = (Inl TypeError :: error + unit grid)"
  by (simp add: Grid_init_def handle_tuple_def handle_distance_def bind_err_def known_dims_def
      active_def max_courant_def choose_courant_def spacing_term_def spacing_attr_def)









section \<open>Time stepping: properties\<close>

subsection \<open>Commands that change only the fields\<close>

lemma frame_refl: "frame g g"
  by (simp add: frame_def)

lemma frame_trans: "frame g g' \<Longrightarrow> frame g' g'' \<Longrightarrow> frame g g''"
  unfolding frame_def by (cases g, cases g', cases g'') simp

lemma frame_fields:
  assumes "frame g g'"
  shows "animate g' = animate g" "time_steps_passed g' = time_steps_passed g"
    "boundaries g' = boundaries g" "sources g' = sources g" "detectors g' = detectors g"
    "time_step g' = time_step g" "total_time g' = total_time g" "folder g' = folder g"
  using assms unfolding frame_def by (cases g, cases g', simp)+

lemma keeps_ok: "keeps ok"
  by (simp add: keeps_def ok_def frame_refl)

lemma keeps_call: "keeps (call hook cl)"
  by (auto simp: keeps_def call_def frame_def split: prod.splits)

lemma keeps_seq: "keeps m \<Longrightarrow> keeps n \<Longrightarrow> keeps (seq m n)"
  unfolding keeps_def seq_def
  apply (auto split: prod.splits option.splits)
   apply (metis frame_trans fst_conv snd_conv)
  apply (metis fst_conv snd_conv)
  done

lemma keeps_foreach: "(\<And>x. keeps (f x)) \<Longrightarrow> keeps (foreach f xs)"
  by (induction xs) (simp_all add: keeps_ok keeps_seq)

lemma keeps_for_in: "(\<And>x. keeps (f x)) \<Longrightarrow> keeps (for_in coll f)"
  using keeps_foreach[of f] by (simp add: keeps_def for_in_def)

lemma keeps_field_E: "keeps field_E"
  by (simp add: keeps_def field_E_def modify_def frame_def Let_def)

lemma keeps_field_H: "keeps field_H"
  by (simp add: keeps_def field_H_def modify_def frame_def Let_def)

lemma keeps_call_dep: "keeps (\<lambda>w. call hook (f w) w)"
  by (auto simp: keeps_def call_def frame_def split: prod.splits)

lemma keeps_pre_E: "keeps (pre_E hook)"
  unfolding pre_E_def by (rule keeps_for_in) (rule keeps_call_dep)

lemma keeps_pre_H: "keeps (pre_H hook)"
  unfolding pre_H_def by (rule keeps_for_in) (rule keeps_call_dep)

lemma keepsD: "keeps m \<Longrightarrow> frame (fst w) (fst (snd (m w)))"
  unfolding keeps_def by blast

lemma keeps_update_E: "keeps (update_E hook)"
  by (simp add: update_E_def keeps_seq keeps_pre_E keeps_field_E keeps_for_in keeps_call keeps_ok)

lemma keeps_update_H: "keeps (update_H hook)"
  by (simp add: update_H_def keeps_seq keeps_pre_H keeps_field_H keeps_for_in keeps_call keeps_ok)

lemma seq_ok_left: "seq ok m = m"
  by (rule ext) (simp add: seq_def ok_def)

lemma seq_ok_right: "seq m ok = m"
  by (rule ext) (auto simp: seq_def ok_def split: prod.splits option.splits)

lemma seq_assoc: "seq (seq a b) d = seq a (seq b d)"
  by (rule ext) (auto simp: seq_def split: prod.splits option.splits)

lemma seqs_append: "seqs (ms @ ns) = seq (seqs ms) (seqs ns)"
  by (induction ms) (simp_all add: seq_ok_left seq_assoc)


lemma succeeds_ok: "succeeds ok"
  by (simp add: succeeds_def ok_def)

lemma succeedsD: "succeeds m \<Longrightarrow> fst (m w) = None"
  unfolding succeeds_def by blast

lemma succeeds_call_dep: "calm hook \<Longrightarrow> succeeds (\<lambda>w. call hook (f w) w)"
  unfolding succeeds_def calm_def call_def
  by (auto split: prod.splits) (metis fst_conv)

lemma succeeds_call: "calm hook \<Longrightarrow> succeeds (call hook cl)"
  using succeeds_call_dep[of hook "\<lambda>w. cl"] by simp

lemma succeeds_seq: "succeeds m \<Longrightarrow> succeeds n \<Longrightarrow> succeeds (seq m n)"
  unfolding succeeds_def seq_def
  by (auto split: prod.splits option.splits) (metis fst_conv option.distinct(1))+

lemma succeeds_foreach: "(\<And>x. succeeds (f x)) \<Longrightarrow> succeeds (foreach f xs)"
  by (induction xs) (simp_all add: succeeds_ok succeeds_seq)

lemma succeeds_for_in: "(\<And>x. succeeds (f x)) \<Longrightarrow> succeeds (for_in coll f)"
  using succeeds_foreach[of f] unfolding succeeds_def for_in_def by blast

lemma succeeds_modify: "succeeds (modify f)"
  by (simp add: succeeds_def modify_def)

lemma succeeds_update_E: "calm hook \<Longrightarrow> succeeds (update_E hook)"
  by (simp add: update_E_def pre_E_def field_E_def succeeds_seq succeeds_for_in succeeds_call
      succeeds_call_dep succeeds_modify succeeds_ok)

lemma succeeds_update_H: "calm hook \<Longrightarrow> succeeds (update_H hook)"
  by (simp add: update_H_def pre_H_def field_H_def succeeds_seq succeeds_for_in succeeds_call
      succeeds_call_dep succeeds_modify succeeds_ok)

lemma advance_zero: "advance 0 g g' = frame g g'"
  unfolding advance_def frame_def by (cases g, cases g') auto

lemma advance_trans: "advance a g g' \<Longrightarrow> advance b g' g'' \<Longrightarrow> advance (a + b) g g''"
  unfolding advance_def by (cases g, cases g', cases g'') simp

lemma advance_fields:
  assumes "advance n g g'"
  shows "animate g' = animate g" "time_steps_passed g' = time_steps_passed g + n"
    "total_time g' = total_time g"
  using assms unfolding advance_def by (cases g, cases g', simp)+

lemma seq_result:
  assumes "fst (m w) = None"
  shows "seq m n w = n (snd (m w))"
  using assms by (auto simp: seq_def split: prod.splits option.splits)

lemma seq_raises:
  assumes "fst (m w) = Some e"
  shows "seq m n w = m w"
  using assms by (auto simp: seq_def split: prod.splits option.splits)

lemma step_advance:
  assumes "calm hook" and "animate (fst w) = Some False"
  shows "fst (step hook interval w) = None"
    and "advance 1 (fst w) (fst (snd (step hook interval w)))"
proof -
  let ?P = "seq (update_E hook) (update_H hook)"
  have P: "succeeds ?P" "keeps ?P"
    using assms(1) by (simp_all add: succeeds_seq succeeds_update_E succeeds_update_H
        keeps_seq keeps_update_E keeps_update_H)
  have fr: "frame (fst w) (fst (snd (?P w)))" by (rule keepsD[OF P(2)])
  have an: "animate (fst (snd (?P w))) = Some False"
    using frame_fields(1)[OF fr] assms(2) by simp
  have "step hook interval w = seq ?P (seq (capture hook interval) (seq count_step ok)) w"
    by (simp add: step_def seq_assoc)
  also have "\<dots> = seq (capture hook interval) (seq count_step ok) (snd (?P w))"
    by (rule seq_result) (rule succeedsD[OF P(1)])
  also have "\<dots> = count_step (snd (?P w))"
    using an by (simp add: seq_def capture_def ok_def count_step_def modify_def)
  finally have st: "step hook interval w = count_step (snd (?P w))" .
  show "fst (step hook interval w) = None"
    by (simp add: st count_step_def modify_def)
  have "advance 1 (fst (snd (?P w))) (fst (snd (count_step (snd (?P w)))))"
    by (simp add: count_step_def modify_def advance_def)
  with fr show "advance 1 (fst w) (fst (snd (step hook interval w)))"
    using advance_trans[of 0 "fst w" _ 1] by (simp add: st advance_zero)
qed

lemma repeat_advance:
  assumes "calm hook" and "animate (fst w) = Some False"
  shows "fst (repeat n (step hook interval) w) = None \<and>
         advance (int n) (fst w) (fst (snd (repeat n (step hook interval) w)))"
  using assms(2)
proof (induction n arbitrary: w)
  case 0
  then show ?case by (simp add: ok_def advance_zero frame_refl)
next
  case (Suc n)
  let ?w1 = "snd (step hook interval w)"
  note s = step_advance[OF assms(1) Suc.prems, of interval]
  have an: "animate (fst ?w1) = Some False"
    using advance_fields(1)[OF s(2)] Suc.prems by simp
  have r: "repeat (Suc n) (step hook interval) w = repeat n (step hook interval) ?w1"
    using seq_result[of "step hook interval" w "repeat n (step hook interval)"] s(1) by simp
  show ?case
    unfolding r using Suc.IH[OF an] advance_trans[OF s(2), of "int n"]
    by (simp add: add.commute)
qed

lemma for_in_empty: "coll (fst w) = [] \<Longrightarrow> for_in coll f w = ok w"
  by (simp add: for_in_def)















lemma unit_line_fields:
  "boundaries unit_line = []" "sources unit_line = []" "detectors unit_line = []"
  "time_steps_passed unit_line = 0" "animate unit_line = None"
  "time_step unit_line = 0.99 / const_c"
  by (simp_all add: unit_line_def)




section \<open>Running: properties\<close>

text \<open>
  When no hook raises and \<^verbatim>\<open>animate\<close> is false, \<^verbatim>\<open>run\<close> ends normally
  after exactly as many steps as its conversion of the duration gives.
\<close>

lemma calm_quiet: "calm quiet"
  by (simp add: calm_def quiet_def)

lemma run_counts:
  assumes "calm hook" and "animate (fst w) = Some False"
    and "run_steps (time_step (fst w)) (Some d) = Inr n"
  shows "fst (run hook (Some d) pb interval w) = None"
    and "time_steps_passed (fst (snd (run hook (Some d) pb interval w)))
           = time_steps_passed (fst w) + int (nat n)"
    and "total_time (fst (snd (run hook (Some d) pb interval w))) = Some n"
proof -
  let ?w1 = "((fst w)\<lparr>total_time := Some n\<rparr>, snd w)"
  let ?init = "for_in detectors (\<lambda>d. call hook (Init_h5file d))"
  let ?w2 = "snd (?init ?w1)"
  let ?loop = "repeat (nat n) (step hook interval)"
  have i: "succeeds ?init" "keeps ?init"
    using assms(1) by (simp_all add: succeeds_for_in succeeds_call keeps_for_in keeps_call)
  have fr: "frame (fst ?w1) (fst ?w2)" by (rule keepsD[OF i(2)])
  have an: "animate (fst ?w2) = Some False"
    using frame_fields(1)[OF fr] assms(2) by simp
  have "run hook (Some d) pb interval w = seq (prepare hook) (seq ?init (seq ?loop ok)) ?w1"
    using assms(3) by (simp add: run_def seq_def modify_def)
  also have "\<dots> = seq ?init (seq ?loop ok) ?w1"
    using assms(2) by (simp add: seq_def prepare_def ok_def)
  also have "\<dots> = seq ?loop ok ?w2"
    by (rule seq_result) (rule succeedsD[OF i(1)])
  finally have r: "run hook (Some d) pb interval w = ?loop ?w2"
    by (simp add: seq_ok_right)
  note l = repeat_advance[OF assms(1) an, of "nat n" interval]
  show "fst (run hook (Some d) pb interval w) = None"
    using l by (simp add: r)
  show "time_steps_passed (fst (snd (run hook (Some d) pb interval w)))
           = time_steps_passed (fst w) + int (nat n)"
    using advance_fields(2)[OF conjunct2[OF l]] frame_fields(2)[OF fr] by (simp add: r)
  show "total_time (fst (snd (run hook (Some d) pb interval w))) = Some n"
    using advance_fields(3)[OF conjunct2[OF l]] frame_fields(7)[OF fr] by (simp add: r)
qed

lemma half_step:
  assumes "dt \<noteq> 0"
  shows "run_steps dt (Some (PFloat (Fin (dt / 2)))) = Inr 0"
    and "handle_time dt (PFloat (Fin (dt / 2))) = Inr 1"
proof -
  have q: "Fin (dt / 2) / Fin dt = Fin (1 / 2)"
    using assms by (simp add: divide_fl_def)
  show "run_steps dt (Some (PFloat (Fin (dt / 2)))) = Inr 0"
    by (simp add: q to_fl_values py_int_values)
  have "Fin (1 / 2) + Fin 0.5 = Fin 1" by (simp add: plus_fl_def)
  then show "handle_time dt (PFloat (Fin (dt / 2))) = Inr 1"
    by (simp add: q to_fl_values py_int_values)
qed

lemma time_step_unit_line: "time_step (unit_line :: 'c grid) \<noteq> 0"
  by (simp add: unit_line_def const_c_def)

lemma run_no_steps:
  assumes "run_steps (time_step (fst w)) d = Inr 0"
    and "animate (fst w) = Some False" and "detectors (fst w) = []"
  shows "run hook d pb interval w = (None, ((fst w)\<lparr>total_time := Some 0\<rparr>, snd w))"
  using assms by (simp add: run_def seq_def modify_def prepare_def ok_def for_in_def)

text \<open>
  C8. \<^verbatim>\<open>run\<close> does not convert a float duration with the time-to-steps
  conversion: for half a time step the quotient \<open>0.5\<close> is exact, \<^verbatim>\<open>run\<close>
  truncates it to 0 and takes no step, and \<^verbatim>\<open>_handle_time\<close> rounds it to
  1.
\<close>

theorem run_truncates_half_step:
  "run_steps (time_step (still_line :: unit grid))
     (Some (PFloat (Fin (time_step (still_line :: unit grid) / 2)))) = Inr 0 \<and>
   handle_time (time_step (still_line :: unit grid))
     (PFloat (Fin (time_step (still_line :: unit grid) / 2))) = Inr 1 \<and>
   run (quiet :: (unit, unit) hooks) (Some (PFloat (Fin (time_step (still_line :: unit grid) / 2))))
     True 100 (still_line, ()) = (None, (still_line\<lparr>total_time := Some 0\<rparr>, ()))"
proof -
  have dt: "time_step (still_line :: unit grid) \<noteq> 0"
    using time_step_unit_line by (simp add: still_line_def)
  note h = half_step[OF dt]
  have "run (quiet :: (unit, unit) hooks) (Some (PFloat (Fin (time_step (still_line :: unit grid) / 2))))
     True 100 (still_line, ()) = (None, ((fst (still_line :: unit grid, ()))\<lparr>total_time := Some 0\<rparr>, snd (still_line :: unit grid, ())))"
  proof (rule run_no_steps)
    show "run_steps (time_step (fst (still_line :: unit grid, ())))
            (Some (PFloat (Fin (time_step (still_line :: unit grid) / 2)))) = Inr 0"
      using h(1) by simp
    show "animate (fst (still_line :: unit grid, ())) = Some False"
      by (simp add: still_line_def)
    show "detectors (fst (still_line :: unit grid, ())) = []"
      by (simp add: still_line_def unit_line_fields)
  qed
  with h show ?thesis by simp
qed





end
